theory Spec2Isabelle
  imports Complex_Main "HOL-Library.Word"
begin

section \<open>JavaScript values\<close>

text \<open>
  A JavaScript string is a sequence of UTF-16 code units; \<open>length\<close> counts code units,
  as \<^verbatim>\<open>String.prototype.length\<close> does. \<open>js\<close> embeds an ASCII literal.
\<close>

type_synonym jsstring = "16 word list"

definition js :: "string \<Rightarrow> jsstring" where
  "js s = map (\<lambda>c. of_nat (of_char c)) s"

text \<open>
  A number is an IEEE double: a finite value (a rational; both zeros are \<open>Finite 0\<close>),
  an infinity or NaN. The code below only tests numbers for truthiness and passes them on.
\<close>

datatype jsnum = Finite rat | PosInfinity | NegInfinity | NaN

datatype jsval =
    JUndefined
  | JNull
  | JBool bool
  | JNum jsnum
  | JStr jsstring
  | JArr "jsval list"
  | JObj "(jsstring \<times> jsval) list"

text \<open>ToBoolean: what \<^verbatim>\<open>if (v)\<close>, \<^verbatim>\<open>!v\<close> and \<^verbatim>\<open>v || w\<close> test.\<close>

fun truthy :: "jsval \<Rightarrow> bool" where
  "truthy JUndefined = False"
| "truthy JNull = False"
| "truthy (JBool b) = b"
| "truthy (JNum n) = (n \<noteq> Finite 0 \<and> n \<noteq> NaN)"
| "truthy (JStr s) = (s \<noteq> [])"
| "truthy (JArr xs) = True"
| "truthy (JObj kvs) = True"

text \<open>\<^verbatim>\<open>a || b\<close>\<close>

definition js_or :: "jsval \<Rightarrow> jsval \<Rightarrow> jsval" where
  "js_or a b = (if truthy a then a else b)"

fun nullish :: "jsval \<Rightarrow> bool" where
  "nullish JUndefined = True"
| "nullish JNull = True"
| "nullish v = False"

text \<open>
  Any value can be thrown, \<^verbatim>\<open>null\<close> and \<^verbatim>\<open>undefined\<close> included. An Error object (a
  TypeError as well) is the object with its \<^verbatim>\<open>message\<close> property, the one property the code
  reads of it.
\<close>

definition js_Error :: "jsstring \<Rightarrow> jsval" where
  "js_Error m = JObj [(js ''message'', JStr m)]"

text \<open>
  ToString, as a template literal applies it to each substitution; the result is the
  string or the thrown value. \<open>fmt\<close> is the conversion of numbers. An array is joined
  with commas, \<^verbatim>\<open>null\<close> and \<^verbatim>\<open>undefined\<close> elements giving the empty string. An object
  without a \<^verbatim>\<open>toString\<close> property of its own inherits the one of \<^verbatim>\<open>Object.prototype\<close>;
  with one, which no value of this type can make callable, neither \<^verbatim>\<open>toString\<close> nor
  \<^verbatim>\<open>valueOf\<close> yields a primitive and the conversion throws a TypeError (the message is
  the one V8 gives).
\<close>

fun ToString :: "(jsnum \<Rightarrow> jsstring) \<Rightarrow> jsval \<Rightarrow> jsval + jsstring"
  and Array_join :: "(jsnum \<Rightarrow> jsstring) \<Rightarrow> jsval list \<Rightarrow> jsval + jsstring" where
  "ToString fmt JUndefined = Inr (js ''undefined'')"
| "ToString fmt JNull = Inr (js ''null'')"
| "ToString fmt (JBool b) = Inr (if b then js ''true'' else js ''false'')"
| "ToString fmt (JNum n) = Inr (fmt n)"
| "ToString fmt (JStr s) = Inr s"
| "ToString fmt (JArr xs) = Array_join fmt xs"
| "ToString fmt (JObj kvs) =
     (if js ''toString'' \<in> set (map fst kvs)
      then Inl (js_Error (js ''Cannot convert object to primitive value''))
      else Inr (js ''[object Object]''))"
| "Array_join fmt [] = Inr []"
| "Array_join fmt (x # xs) =
     (case (if nullish x then Inr [] else ToString fmt x) of
        Inl err \<Rightarrow> Inl err
      | Inr a \<Rightarrow>
          if xs = [] then Inr a
          else (case Array_join fmt xs of
                  Inl err \<Rightarrow> Inl err
                | Inr b \<Rightarrow> Inr (a @ js '','' @ b)))"

text \<open>One substitution after another: the first that throws ends the evaluation.\<close>

definition then_str :: "jsval + jsstring \<Rightarrow> (jsstring \<Rightarrow> jsval + jsstring) \<Rightarrow> jsval + jsstring" where
  "then_str r f = (case r of Inl err \<Rightarrow> Inl err | Inr a \<Rightarrow> f a)"

section \<open>The insertion-ordered Map of JavaScript\<close>

text \<open>
  A \<^verbatim>\<open>Map<string, V>\<close> is a list of entries in insertion order with distinct keys.
  \<^verbatim>\<open>set\<close> on a key already there replaces the value in place; on a new key it appends.
\<close>

type_synonym 'v jsmap = "(jsstring \<times> 'v) list"

definition map_get :: "'v jsmap \<Rightarrow> jsstring \<Rightarrow> 'v option" where
  "map_get m k = map_of m k"

definition map_size :: "'v jsmap \<Rightarrow> nat" where
  "map_size m = length m"

text \<open>\<^verbatim>\<open>m.keys().next().value\<close>; \<open>None\<close> is \<^verbatim>\<open>undefined\<close>.\<close>

fun map_first_key :: "'v jsmap \<Rightarrow> jsstring option" where
  "map_first_key [] = None"
| "map_first_key ((k, v) # m) = Some k"

definition map_delete :: "jsstring \<Rightarrow> 'v jsmap \<Rightarrow> 'v jsmap" where
  "map_delete k m = filter (\<lambda>e. fst e \<noteq> k) m"

fun map_set :: "jsstring \<Rightarrow> 'v \<Rightarrow> 'v jsmap \<Rightarrow> 'v jsmap" where
  "map_set k v [] = [(k, v)]"
| "map_set k v (e # m) = (if fst e = k then (k, v) # m else e # map_set k v m)"

section \<open>LLMFactory\<close>

definition MAX_CACHE_SIZE :: nat where
  "MAX_CACHE_SIZE = 20"

text \<open>The config object read by the factory; a field that is not set is \<open>JUndefined\<close>.\<close>

record llm_config =
  provider :: jsval
  apiKey :: jsval
  baseUrl :: jsval
  defaultModel :: jsval

text \<open>
  An \<^verbatim>\<open>OpenAIProvider\<close> instance: its object identity (the number of providers
  constructed before it) and the three constructor arguments.
\<close>

record llm_provider =
  pid :: nat
  p_apiKey :: jsval
  p_baseUrl :: jsval
  p_model :: jsval

text \<open>The static state of the class: the cache, and how many providers were constructed.\<close>

record factory =
  cache :: "llm_provider jsmap"
  constructed :: nat

definition factory_init :: factory where
  "factory_init = \<lparr>cache = [], constructed = 0\<rparr>"

text \<open>The template literal of \<open>getCacheKey\<close>; it throws when a substitution does.\<close>

definition getCacheKey :: "(jsnum \<Rightarrow> jsstring) \<Rightarrow> llm_config \<Rightarrow> jsval + jsstring" where
  "getCacheKey fmt config =
     then_str (ToString fmt (js_or (provider config) (JStr (js ''openai'')))) (\<lambda>p.
     then_str (ToString fmt (js_or (apiKey config) (JStr []))) (\<lambda>k.
     then_str (ToString fmt (js_or (baseUrl config) (JStr []))) (\<lambda>u.
     then_str (ToString fmt (js_or (defaultModel config) (JStr []))) (\<lambda>m.
       Inr (p @ js '':'' @ k @ js '':'' @ u @ js '':'' @ m)))))"

definition API_KEY_MISSING :: jsstring where
  "API_KEY_MISSING =
     js ''LLM API Key '' @ [0x672A, 0x914D, 0x7F6E, 0x3002, 0x8BF7, 0x5728, 0x7BA1, 0x7406,
       0x9762, 0x677F] @ js '' (/admin) '' @ [0x4E2D, 0x8BBE, 0x7F6E] @ js '' API Key'' @
     [0xFF0C, 0x6216, 0x5728] @ js '' .env '' @ [0x4E2D, 0x914D, 0x7F6E] @
     js '' OPENAI_API_KEY'' @ [0x3002]"

text \<open>
  The eviction step of \<open>createLLM\<close>: when the cache is full, delete the first key in
  iteration order, unless that key is falsy (the empty string or \<^verbatim>\<open>undefined\<close>).
\<close>

definition evict :: "llm_provider jsmap \<Rightarrow> llm_provider jsmap" where
  "evict m =
     (if map_size m \<ge> MAX_CACHE_SIZE then
        (case map_first_key m of
           Some firstKey \<Rightarrow> if firstKey \<noteq> [] then map_delete firstKey m else m
         | None \<Rightarrow> m)
      else m)"

text \<open>
  \<^verbatim>\<open>customConfig || llmConfig.get()\<close>: \<open>dflt\<close> is what \<^verbatim>\<open>llmConfig.get()\<close> returns at the
  call, \<open>customConfig = None\<close> an omitted (or falsy) argument.
\<close>

definition effective_config :: "llm_config \<Rightarrow> llm_config option \<Rightarrow> llm_config" where
  "effective_config dflt customConfig = (case customConfig of Some c \<Rightarrow> c | None \<Rightarrow> dflt)"

text \<open>
  The result of \<open>createLLM\<close> is the thrown value or the returned provider, with the
  static state after the call. \<open>fmt\<close> is the conversion of numbers to strings; \<open>ctor\<close> is
  what \<^verbatim>\<open>new OpenAIProvider(...)\<close> throws, should the call get there (\<open>None\<close>: it
  returns the provider). The oldest entry is evicted before the provider is constructed.
\<close>

definition createLLM ::
  "(jsnum \<Rightarrow> jsstring) \<Rightarrow> jsval option \<Rightarrow> llm_config \<Rightarrow> llm_config option \<Rightarrow> factory
     \<Rightarrow> (jsval + llm_provider) \<times> factory" where
  "createLLM fmt ctor dflt customConfig st =
     (let config = effective_config dflt customConfig in
      if \<not> truthy (apiKey config) then (Inl (js_Error API_KEY_MISSING), st)
      else
        case getCacheKey fmt config of
          Inl err \<Rightarrow> (Inl err, st)
        | Inr cacheKey \<Rightarrow>
           (case map_get (cache st) cacheKey of
              Some cached \<Rightarrow> (Inr cached, st)
            | None \<Rightarrow>
                let m = evict (cache st) in
                case ctor of
                  Some err \<Rightarrow> (Inl err, st\<lparr>cache := m\<rparr>)
                | None \<Rightarrow>
                    let p = \<lparr>pid = constructed st, p_apiKey = apiKey config,
                             p_baseUrl = baseUrl config, p_model = defaultModel config\<rparr>
                    in (Inr p, \<lparr>cache = map_set cacheKey p m,
                                 constructed = Suc (constructed st)\<rparr>)))"

definition clearCache :: "factory \<Rightarrow> factory" where
  "clearCache st = st\<lparr>cache := []\<rparr>"

text \<open>
  A history of calls on the class, replayed from the empty cache; each \<open>createLLM\<close> call
  comes with the outcome of the provider constructor.
\<close>

datatype factory_call = CreateLLM "jsval option" llm_config "llm_config option" | ClearCache

fun factory_step :: "(jsnum \<Rightarrow> jsstring) \<Rightarrow> factory \<Rightarrow> factory_call \<Rightarrow> factory" where
  "factory_step fmt st (CreateLLM ctor dflt c) = snd (createLLM fmt ctor dflt c st)"
| "factory_step fmt st ClearCache = clearCache st"

definition factory_run :: "(jsnum \<Rightarrow> jsstring) \<Rightarrow> factory_call list \<Rightarrow> factory" where
  "factory_run fmt calls = foldl (factory_step fmt) factory_init calls"

section \<open>The WebSocket transport (ChatWebSocket.ts)\<close>

subsection \<open>Strings and property reads\<close>

text \<open>
  \<^verbatim>\<open>String.prototype.trim\<close> strips the white space and line terminators of ECMAScript
  from both ends.
\<close>

definition is_ws :: "16 word \<Rightarrow> bool" where
  "is_ws c \<longleftrightarrow>
     c \<in> set [0x9, 0xA, 0xB, 0xC, 0xD, 0x20, 0xA0, 0x1680, 0x2028, 0x2029, 0x202F, 0x205F,
              0x3000, 0xFEFF] \<or> (0x2000 \<le> c \<and> c \<le> 0x200A)"

definition trim :: "jsstring \<Rightarrow> jsstring" where
  "trim s = rev (dropWhile is_ws (rev (dropWhile is_ws s)))"

text \<open>
  \<^verbatim>\<open>v.name\<close> on a value that is neither null nor undefined, for the property names the
  handler reads (\<^verbatim>\<open>type\<close>, \<^verbatim>\<open>query\<close>, \<^verbatim>\<open>maxRounds\<close>, \<^verbatim>\<open>model\<close>, \<^verbatim>\<open>apiKey\<close>, \<^verbatim>\<open>baseUrl\<close>,
  \<^verbatim>\<open>fileContext\<close>, \<^verbatim>\<open>searchResults\<close>, \<^verbatim>\<open>finalOutput\<close>, \<^verbatim>\<open>expertsOutput\<close>, and
  \<^verbatim>\<open>message\<close> of a thrown value): none of them is
  a property of a built-in prototype, so the read gives the own property of an object
  and \<^verbatim>\<open>undefined\<close> on every other value.
\<close>

fun property :: "jsval \<Rightarrow> jsstring \<Rightarrow> jsval" where
  "property (JObj kvs) name = (case map_of kvs name of Some v \<Rightarrow> v | None \<Rightarrow> JUndefined)"
| "property v name = JUndefined"

text \<open>\<^verbatim>\<open>v?.name\<close>\<close>

definition opt_chain :: "jsval \<Rightarrow> jsstring \<Rightarrow> jsval" where
  "opt_chain v name = (if nullish v then JUndefined else property v name)"

text \<open>
  \<^verbatim>\<open>data.type\<close>, the first property read of the handler: on null or undefined it throws
  a TypeError (the message is the one V8 gives).
\<close>

definition read_type :: "jsval \<Rightarrow> jsval + jsval" where
  "read_type data =
     (if nullish data then
        Inl (js_Error (js ''Cannot read properties of '' @
          (if data = JNull then js ''null'' else js ''undefined'') @
          js '' (reading '' @ [0x27] @ js ''type'' @ [0x27] @ js '')''))
      else Inr (property data (js ''type'')))"

subsection \<open>The session\<close>

definition MAX_MESSAGE_SIZE :: nat where
  "MAX_MESSAGE_SIZE = 1 * 1024 * 1024"

text \<open>
  The state of one connection: the two variables of the closure, the socket's
  \<^verbatim>\<open>readyState\<close> (1 is OPEN), and a record of what the handlers did: the payloads handed to
  \<^verbatim>\<open>socket.send\<close> on an open socket (before serialisation), the number of
  \<^verbatim>\<open>DeepThinkEngine\<close> instances constructed (an engine is named by its index), the calls
  \<^verbatim>\<open>engine.stream(query, streamConfig)\<close>, the engines whose \<^verbatim>\<open>for await\<close> loop is suspended
  waiting for the next update, and the engines on which \<^verbatim>\<open>abort()\<close> was called.
\<close>

record session =
  isProcessing :: bool
  currentEngine :: "nat option"
  readyState :: nat
  sent :: "jsval list"
  engines :: nat
  streams :: "(nat \<times> jsstring \<times> jsval) list"
  running :: "nat list"
  aborted :: "nat list"

definition session_init :: session where
  "session_init = \<lparr>isProcessing = False, currentEngine = None, readyState = 1, sent = [],
     engines = 0, streams = [], running = [], aborted = []\<rparr>"

text \<open>
  \<^verbatim>\<open>socket.send\<close> of the WebSocket library: the data goes out on an open socket and is
  discarded on a closing or closed one.
\<close>

definition socket_send :: "jsval \<Rightarrow> session \<Rightarrow> session" where
  "socket_send payload s = (if readyState s = 1 then s\<lparr>sent := sent s @ [payload]\<rparr> else s)"

text \<open>
  \<^verbatim>\<open>safeSend\<close> drops the payload unless the socket is open; an exception of the send is
  swallowed.
\<close>

definition safeSend :: "jsval \<Rightarrow> session \<Rightarrow> session" where
  "safeSend payload s = (if readyState s = 1 then socket_send payload s else s)"

definition error_event :: "jsval \<Rightarrow> jsval" where
  "error_event m = JObj [(js ''type'', JStr (js ''error'')), (js ''message'', m)]"

text \<open>The payload whose serialisation is \<^verbatim>\<open>PONG_MSG\<close>.\<close>

definition PONG_MSG :: jsval where
  "PONG_MSG = JObj [(js ''type'', JStr (js ''pong''))]"

definition abort :: "nat \<Rightarrow> session \<Rightarrow> session" where
  "abort e s = s\<lparr>aborted := aborted s @ [e]\<rparr>"

text \<open>
  The \<^verbatim>\<open>catch\<close> of the message handler, entered with the thrown value. It reads
  \<^verbatim>\<open>error.message\<close> before it sends and before it resets the two variables: when the
  thrown value is \<^verbatim>\<open>null\<close> or \<^verbatim>\<open>undefined\<close> that read throws, nothing is sent, the resets are
  never reached and the handler's promise rejects.
\<close>

definition handler_catch :: "jsval \<Rightarrow> session \<Rightarrow> session" where
  "handler_catch err s =
     (if nullish err then s
      else (safeSend (error_event
              (js_or (property err (js ''message'')) (JStr (js ''Unknown error'')))) s)
             \<lparr>isProcessing := False, currentEngine := None\<rparr>)"

text \<open>The \<^verbatim>\<open>finally\<close> of the streaming loop of engine \<open>e\<close>; the loop is left.\<close>

definition run_finally :: "nat \<Rightarrow> session \<Rightarrow> session" where
  "run_finally e s =
     s\<lparr>isProcessing := False, currentEngine := None, running := removeAll e (running s)\<rparr>"

text \<open>The config object built for \<^verbatim>\<open>engine.stream\<close>, keys in insertion order.\<close>

definition streamConfig :: "jsval \<Rightarrow> jsval" where
  "streamConfig data = JObj (
     [(js ''maxRounds'', js_or (property data (js ''maxRounds'')) (JNum (Finite 1)))] @
     (if truthy (property data (js ''model''))
      then [(js ''defaultModel'', property data (js ''model''))] else []) @
     (if truthy (property data (js ''apiKey''))
      then [(js ''apiKey'', property data (js ''apiKey''))] else []) @
     (if truthy (property data (js ''baseUrl''))
      then [(js ''baseUrl'', property data (js ''baseUrl''))] else []) @
     (if truthy (property data (js ''fileContext''))
      then [(js ''fileContext'', property data (js ''fileContext''))] else []))"

text \<open>\<^verbatim>\<open>typeof data.query === 'string' ? data.query.trim() : ''\<close>\<close>

definition query_of :: "jsval \<Rightarrow> jsstring" where
  "query_of data = (case property data (js ''query'') of JStr q \<Rightarrow> trim q | _ \<Rightarrow> [])"

text \<open>
  The \<^verbatim>\<open>message\<close> handler up to its first suspension. \<open>JSON_parse\<close> is \<^verbatim>\<open>JSON.parse\<close>
  (\<open>None\<close> when it throws); \<open>ctor\<close> is what \<^verbatim>\<open>new DeepThinkEngine()\<close> throws, should the
  handler get there (\<open>None\<close>: it returns the engine). When the handler starts a run it
  is left suspended in the loop, waiting for the first update.
\<close>

definition on_message ::
  "(jsstring \<Rightarrow> jsval option) \<Rightarrow> jsval option \<Rightarrow> jsstring \<Rightarrow> session \<Rightarrow> session" where
  "on_message JSON_parse ctor msgStr s =
     (if length msgStr > MAX_MESSAGE_SIZE then
        safeSend (error_event (JStr (js ''Message too large''))) s
      else case JSON_parse msgStr of
        None \<Rightarrow> safeSend (error_event (JStr (js ''Invalid JSON''))) s
      | Some data \<Rightarrow>
         (case read_type data of
            Inl err \<Rightarrow> handler_catch err s
          | Inr ty \<Rightarrow>
              if ty = JStr (js ''ping'') then socket_send PONG_MSG s
              else if ty = JStr (js ''cancel'') then
                (case currentEngine s of Some e \<Rightarrow> abort e s | None \<Rightarrow> s)
              else if isProcessing s then
                safeSend (error_event (JStr (js
                  ''Already processing a query. Please wait or send cancel.''))) s
              else
                let query = query_of data in
                if query = [] then safeSend (error_event (JStr (js ''Empty query''))) s
                else if length query > 50000 then
                  safeSend (error_event (JStr (js ''Query too long (max 50,000 characters)''))) s
                else
                  (case ctor of
                     Some err \<Rightarrow> handler_catch err (s\<lparr>isProcessing := True\<rparr>)
                   | None \<Rightarrow>
                       s\<lparr>isProcessing := True,
                         currentEngine := Some (engines s),
                         engines := Suc (engines s),
                         streams := streams s @ [(engines s, query, streamConfig data)],
                         running := running s @ [engines s]\<rparr>)))"

subsection \<open>The streaming loop\<close>

text \<open>An update yielded by \<^verbatim>\<open>engine.stream\<close>; a property it lacks is \<open>JUndefined\<close>.\<close>

record update =
  utype :: jsval
  unode :: jsval
  udata :: jsval
  ustate :: jsval

text \<open>The payload the loop body hands to \<open>safeSend\<close> for an update, if any.\<close>

definition forward :: "update \<Rightarrow> jsval option" where
  "forward u =
     (if utype u = JStr (js ''node_start'') then
        Some (JObj [(js ''type'', JStr (js ''state_update'')), (js ''node'', unode u),
                    (js ''status'', JStr (js ''started'')),
                    (js ''data'', js_or (udata u) (JObj []))])
      else if utype u = JStr (js ''expert_complete'') then
        Some (JObj [(js ''type'', JStr (js ''expert_complete'')), (js ''data'', udata u)])
      else if utype u = JStr (js ''node_complete'') then
        Some (JObj ([(js ''type'', JStr (js ''state_update'')), (js ''node'', unode u),
                     (js ''status'', JStr (js ''completed''))] @
                    (if unode u = JStr (js ''search'') \<and>
                        truthy (opt_chain (ustate u) (js ''searchResults''))
                     then [(js ''searchResults'', property (ustate u) (js ''searchResults''))]
                     else [])))
      else if utype u = JStr (js ''complete'') then
        Some (JObj [(js ''type'', JStr (js ''complete'')),
                    (js ''data'', JObj
                       [(js ''final_output'', opt_chain (ustate u) (js ''finalOutput'')),
                        (js ''experts'', opt_chain (ustate u) (js ''expertsOutput'')),
                        (js ''searchResults'', opt_chain (ustate u) (js ''searchResults''))])])
      else None)"

text \<open>
  One iteration of the loop of engine \<open>e\<close>, resumed with the update \<open>u\<close>: on a socket
  that is not open the engine is aborted and the loop left through \<^verbatim>\<open>finally\<close> (the
  \<^verbatim>\<open>break\<close> closes the stream first; that it returns is taken for granted). A resumption
  of an engine whose loop is not suspended does not occur and changes nothing.
\<close>

definition on_update :: "nat \<Rightarrow> update \<Rightarrow> session \<Rightarrow> session" where
  "on_update e u s =
     (if e \<notin> set (running s) then s
      else if readyState s \<noteq> 1 then run_finally e (abort e s)
      else case forward u of Some payload \<Rightarrow> safeSend payload s | None \<Rightarrow> s)"

text \<open>The stream of engine \<open>e\<close> ends: the loop is left through \<^verbatim>\<open>finally\<close>.\<close>

definition on_done :: "nat \<Rightarrow> session \<Rightarrow> session" where
  "on_done e s = (if e \<notin> set (running s) then s else run_finally e s)"

text \<open>The stream of engine \<open>e\<close> throws: \<^verbatim>\<open>finally\<close>, then the handler's \<^verbatim>\<open>catch\<close>.\<close>

definition on_throw :: "nat \<Rightarrow> jsval \<Rightarrow> session \<Rightarrow> session" where
  "on_throw e err s =
     (if e \<notin> set (running s) then s else handler_catch err (run_finally e s))"

text \<open>The \<^verbatim>\<open>close\<close> handler; the socket is CLOSED (3) when it runs.\<close>

definition on_close :: "session \<Rightarrow> session" where
  "on_close s =
     (let s' = s\<lparr>readyState := 3\<rparr> in
      case currentEngine s' of
        Some e \<Rightarrow> (abort e s')\<lparr>currentEngine := None\<rparr>
      | None \<Rightarrow> s')"

text \<open>
  What can happen on a connection, in the order the event loop runs it: a message
  arrives (with the outcome of the engine constructor), a suspended loop is resumed by
  an update, by the end of its stream or by an exception, the socket changes its
  \<^verbatim>\<open>readyState\<close>, the socket closes.
\<close>

datatype event =
    Message jsstring "jsval option"
  | Update nat update
  | Done nat
  | Throw nat jsval
  | ReadyState nat
  | Close

fun step :: "(jsstring \<Rightarrow> jsval option) \<Rightarrow> session \<Rightarrow> event \<Rightarrow> session" where
  "step JSON_parse s (Message msgStr ctor) = on_message JSON_parse ctor msgStr s"
| "step JSON_parse s (Update e u) = on_update e u s"
| "step JSON_parse s (Done e) = on_done e s"
| "step JSON_parse s (Throw e err) = on_throw e err s"
| "step JSON_parse s (ReadyState n) = s\<lparr>readyState := n\<rparr>"
| "step JSON_parse s Close = on_close s"

definition run_session :: "(jsstring \<Rightarrow> jsval option) \<Rightarrow> event list \<Rightarrow> session" where
  "run_session JSON_parse evs = foldl (step JSON_parse) session_init evs"

section \<open>The engine behind \<^verbatim>\<open>engine.stream\<close>\<close>

text \<open>
  The class \<^verbatim>\<open>DeepThinkEngine\<close> is imported by the transport and is not among the sources.
  What follows is the engine of the specification: its data model, its components and
  the event sequence of one run.
\<close>

text \<open>
  Modelled from the spec: the node identities of the glossary (\<^verbatim>\<open>search\<close>, \<^verbatim>\<open>experts\<close>,
  \<^verbatim>\<open>synthesis\<close>).
\<close>

datatype node = Search | Experts | Synthesis

text \<open>
  Modelled from the spec: the Event variant of the data model. An expert's result is
  its identity with its output, \<open>None\<close> being the placeholder of a failed expert.
\<close>

datatype engine_event =
    NodeStart node
  | NodeComplete node "jsval list option"
  | ExpertComplete "nat \<times> jsval option"
  | Complete "jsval option" "(nat \<times> jsval option) list" "jsval list option"
  | ErrorEvent jsstring

text \<open>
  Modelled from the spec: the RunState accumulator of the data model.
\<close>

record RunState =
  searchResults :: "jsval list option"
  expertsOutput :: "(nat \<times> jsval option) list"
  finalOutput :: "jsval option"

text \<open>
  Modelled from the spec: what the Orchestrator owns during a run, the RunState and the
  number of times the CancellationToken has been checked so far.
\<close>

record engine_state =
  checks :: nat
  run_state :: RunState

text \<open>
  Modelled from the spec: what the collaborators do in one round. The Search Client
  returns results or fails (\<open>None\<close>); the experts settle in the given order, each with an
  output or a failure (\<open>None\<close>); the synthesis call returns an output and whether it is
  final, or fails (\<open>None\<close>).
\<close>

record round_env =
  search_result :: "jsval list option"
  expert_results :: "(nat \<times> jsval option) list"
  synthesis_result :: "(jsval \<times> bool) option"

text \<open>
  Modelled from the spec: why a stage stops the run, cancellation or a node-level failure.
\<close>

datatype halt = Cancelled | NodeFailed jsstring

text \<open>
  Modelled from the spec: the terminal states of the Orchestrator's state machine.
\<close>

datatype terminal = COMPLETED | ABORTED | FAILED

text \<open>
  Modelled from the spec: what a stage of the pipeline yields, the events it emitted
  and either the reason it halted the run or its result.
\<close>

type_synonym 'a stage = "engine_event list \<times> (halt + 'a)"

text \<open>
  Modelled from the spec: stages run in sequence, their events in the order emitted; a
  stage that halts ends the run (the engine, \<^verbatim>\<open>DeepThinkEngine\<close>, is not among the sources).
\<close>

definition then_stage :: "'a stage \<Rightarrow> ('a \<Rightarrow> 'b stage) \<Rightarrow> 'b stage" where
  "then_stage m f =
     (case m of
        (evs, Inl h) \<Rightarrow> (evs, Inl h)
      | (evs, Inr a) \<Rightarrow> (case f a of (evs', r) \<Rightarrow> (evs @ evs', r)))"

text \<open>
  Modelled from the spec: the CancellationToken, set by \<^verbatim>\<open>abort()\<close> and never reset.
  \<open>cancel_at = Some c\<close>: \<^verbatim>\<open>abort()\<close> is called after \<open>c\<close> checks of the token have passed;
  \<open>None\<close>: it is never called.
\<close>

definition token_set :: "nat option \<Rightarrow> nat \<Rightarrow> bool" where
  "token_set cancel_at k = (case cancel_at of None \<Rightarrow> False | Some c \<Rightarrow> c \<le> k)"

text \<open>
  Modelled from the spec: a check of the token, before new work and after each awaited
  call; when the token is set the run halts with no further event.
\<close>

definition checkpoint :: "nat option \<Rightarrow> engine_state \<Rightarrow> engine_state stage" where
  "checkpoint cancel_at s =
     (if token_set cancel_at (checks s) then ([], Inl Cancelled)
      else ([], Inr (s\<lparr>checks := Suc (checks s)\<rparr>)))"

text \<open>
  Modelled from the spec: a stage emits an Event.
\<close>

definition emit :: "engine_event \<Rightarrow> 'a \<Rightarrow> 'a stage" where
  "emit ev s = ([ev], Inr s)"

text \<open>
  Modelled from the spec: a node signals a fatal failure to the Orchestrator.
\<close>

definition fail :: "jsstring \<Rightarrow> 'a stage" where
  "fail m = ([], Inl (NodeFailed m))"

text \<open>
  Modelled from the spec: the Research node calls the Search Client once and replaces
  \<open>searchResults\<close>. The spec leaves open whether a failed search fails the run or the
  round goes on with \<open>searchResults\<close> as it was; \<open>degrade\<close> chooses.
\<close>

definition research :: "bool \<Rightarrow> nat option \<Rightarrow> round_env \<Rightarrow> engine_state \<Rightarrow> engine_state stage" where
  "research degrade cancel_at env s0 =
     then_stage (checkpoint cancel_at s0) (\<lambda>s1.
     then_stage (emit (NodeStart Search) s1) (\<lambda>s2.
     then_stage (checkpoint cancel_at s2) (\<lambda>s3.
       case search_result env of
         Some rs \<Rightarrow>
           emit (NodeComplete Search (Some rs))
             (s3\<lparr>run_state := (run_state s3)\<lparr>searchResults := Some rs\<rparr>\<rparr>)
       | None \<Rightarrow>
           if degrade then emit (NodeComplete Search None) s3
           else fail (js ''search failed''))))"

text \<open>
  Modelled from the spec: as each expert settles, one ExpertComplete event is emitted
  and its entry appended to \<open>expertsOutput\<close>, in completion order.
\<close>

fun experts_settle ::
  "nat option \<Rightarrow> (nat \<times> jsval option) list \<Rightarrow> engine_state \<Rightarrow> engine_state stage" where
  "experts_settle cancel_at [] s = ([], Inr s)"
| "experts_settle cancel_at (r # rs) s0 =
     then_stage (checkpoint cancel_at s0) (\<lambda>s1.
     then_stage (emit (ExpertComplete r)
         (s1\<lparr>run_state := (run_state s1)\<lparr>expertsOutput := expertsOutput (run_state s1) @ [r]\<rparr>\<rparr>))
       (experts_settle cancel_at rs))"

text \<open>
  Modelled from the spec: the Expert Fan-out Coordinator. The fan-out fails only when
  all experts fail; otherwise its NodeComplete follows the last expert.
\<close>

definition fanout :: "nat option \<Rightarrow> round_env \<Rightarrow> engine_state \<Rightarrow> engine_state stage" where
  "fanout cancel_at env s0 =
     then_stage (checkpoint cancel_at s0) (\<lambda>s1.
     then_stage (emit (NodeStart Experts) s1) (\<lambda>s2.
     then_stage (experts_settle cancel_at (expert_results env) s2) (\<lambda>s3.
       if expert_results env \<noteq> [] \<and> list_all (\<lambda>r. snd r = None) (expert_results env)
       then fail (js ''all experts failed'')
       else emit (NodeComplete Experts None) s3)))"

text \<open>
  Modelled from the spec: the Synthesis node. Its output is final when it says so or
  on the last permitted round; \<open>finalOutput\<close> is assigned then. The result carries the
  decision to stop.
\<close>

definition synthesis ::
  "nat option \<Rightarrow> bool \<Rightarrow> round_env \<Rightarrow> engine_state \<Rightarrow> (engine_state \<times> bool) stage" where
  "synthesis cancel_at last_round env s0 =
     then_stage (checkpoint cancel_at s0) (\<lambda>s1.
     then_stage (emit (NodeStart Synthesis) s1) (\<lambda>s2.
     then_stage (checkpoint cancel_at s2) (\<lambda>s3.
       case synthesis_result env of
         None \<Rightarrow> fail (js ''synthesis failed'')
       | Some (out, final) \<Rightarrow>
           if final \<or> last_round then
             emit (NodeComplete Synthesis None)
               (s3\<lparr>run_state := (run_state s3)\<lparr>finalOutput := Some out\<rparr>\<rparr>, True)
           else emit (NodeComplete Synthesis None) (s3, False))))"

text \<open>
  Modelled from the spec: the Round Controller runs Research, Fan-out and Synthesis in
  that order; \<open>expertsOutput\<close> is reset at the start of the round.
\<close>

definition run_round ::
  "bool \<Rightarrow> nat option \<Rightarrow> bool \<Rightarrow> round_env \<Rightarrow> engine_state \<Rightarrow> (engine_state \<times> bool) stage" where
  "run_round degrade cancel_at last_round env s =
     then_stage (research degrade cancel_at env
                   (s\<lparr>run_state := (run_state s)\<lparr>expertsOutput := []\<rparr>\<rparr>)) (\<lambda>s1.
     then_stage (fanout cancel_at env s1) (\<lambda>s2.
       synthesis cancel_at last_round env s2))"

text \<open>
  Modelled from the spec: the Orchestrator drives at most \<open>maxRounds\<close> rounds, \<open>n\<close> of
  them left, the next one of index \<open>i\<close>.
\<close>

fun rounds ::
  "bool \<Rightarrow> nat option \<Rightarrow> (nat \<Rightarrow> round_env) \<Rightarrow> nat \<Rightarrow> nat \<Rightarrow> engine_state \<Rightarrow> engine_state stage" where
  "rounds degrade cancel_at env 0 i s = ([], Inr s)"
| "rounds degrade cancel_at env (Suc n) i s =
     then_stage (run_round degrade cancel_at (n = 0) (env i) s) (\<lambda>(s', stop).
       if stop then ([], Inr s') else rounds degrade cancel_at env n (Suc i) s')"

text \<open>
  Modelled from the spec: RunState and token at the start of a run.
\<close>

definition engine_init :: engine_state where
  "engine_init = \<lparr>checks = 0,
     run_state = \<lparr>searchResults = None, expertsOutput = [], finalOutput = None\<rparr>\<rparr>"

text \<open>
  Modelled from the spec: \<^verbatim>\<open>stream(query, config)\<close> of the Orchestrator. An empty query
  is a terminal error; on a node failure one Error event ends the sequence; after
  cancellation the sequence ends with no Complete; otherwise one Complete event with
  the accumulated RunState ends it. The result is the event sequence and the terminal
  state.
\<close>

definition stream ::
  "bool \<Rightarrow> nat option \<Rightarrow> (nat \<Rightarrow> round_env) \<Rightarrow> jsstring \<Rightarrow> nat \<Rightarrow> engine_event list \<times> terminal" where
  "stream degrade cancel_at env query maxRounds =
     (if query = [] then ([ErrorEvent (js ''ValidationError'')], FAILED)
      else
        case then_stage (rounds degrade cancel_at env maxRounds 0 engine_init)
                        (checkpoint cancel_at) of
          (evs, Inr s) \<Rightarrow>
            (evs @ [Complete (finalOutput (run_state s)) (expertsOutput (run_state s))
                             (searchResults (run_state s))], COMPLETED)
        | (evs, Inl Cancelled) \<Rightarrow> (evs, ABORTED)
        | (evs, Inl (NodeFailed m)) \<Rightarrow> (evs @ [ErrorEvent m], FAILED))"

text \<open>The two terminal events of the event model.\<close>

fun is_Complete :: "engine_event \<Rightarrow> bool" where
  "is_Complete (Complete f x r) = True"
| "is_Complete ev = False"

fun is_Error :: "engine_event \<Rightarrow> bool" where
  "is_Error (ErrorEvent m) = True"
| "is_Error ev = False"

section \<open>Example inputs\<close>

text \<open>\<^verbatim>\<open>JSON.parse\<close> on the message texts of the examples below.\<close>

definition parse_examples :: "jsstring \<Rightarrow> jsval option" where
  \<open>parse_examples = map_of
     [(js ''null'', JNull),
      (js ''{"query":"a"}'', JObj [(js ''query'', JStr (js ''a''))]),
      (js ''{"query":"b"}'', JObj [(js ''query'', JStr (js ''b''))]),
      (js ''{"type":"cancel"}'', JObj [(js ''type'', JStr (js ''cancel''))]),
      (js ''{"type":"ping"}'', JObj [(js ''type'', JStr (js ''ping''))]),
      (js ''{"query":"hi","model":""}'',
         JObj [(js ''query'', JStr (js ''hi'')), (js ''model'', JStr [])]),
      (js ''{"query":" hi ","model":"m1","maxRounds":3}'',
         JObj [(js ''query'', JStr (js '' hi '')), (js ''model'', JStr (js ''m1'')),
               (js ''maxRounds'', JNum (Finite 3))]),
      (js ''{"query":"  "}'', JObj [(js ''query'', JStr (js ''  ''))])]\<close>

text \<open>A first query starts a run; the text \<^verbatim>\<open>null\<close> arrives while it is in flight.\<close>

definition null_then_query :: "event list" where
  \<open>null_then_query =
     [Message (js ''{"query":"a"}'') None, Message (js ''null'') None,
      Message (js ''{"query":"b"}'') None]\<close>

definition null_then_cancel :: "event list" where
  \<open>null_then_cancel =
     [Message (js ''{"query":"a"}'') None, Message (js ''null'') None,
      Message (js ''{"type":"cancel"}'') None]\<close>

definition one_run :: session where
  \<open>one_run = run_session parse_examples [Message (js ''{"query":"a"}'') None]\<close>

definition search_done :: update where
  "search_done = \<lparr>utype = JStr (js ''node_complete''), unode = JStr (js ''search''),
     udata = JUndefined, ustate = JObj [(js ''searchResults'', JArr [])]\<rparr>"

text \<open>No config of the examples holds a number: the conversion of numbers is not used.\<close>

definition no_conv :: "jsnum \<Rightarrow> jsstring" where
  "no_conv n = []"

definition cfg_of :: "nat \<Rightarrow> llm_config" where
  "cfg_of n = \<lparr>provider = JUndefined, apiKey = JStr [of_nat n], baseUrl = JUndefined,
               defaultModel = JUndefined\<rparr>"

definition cfg_no_key :: llm_config where
  "cfg_no_key = \<lparr>provider = JUndefined, apiKey = JUndefined, baseUrl = JUndefined,
                 defaultModel = JUndefined\<rparr>"

definition cfg_object_key :: llm_config where
  "cfg_object_key = \<lparr>provider = JUndefined,
     apiKey = JObj [(js ''toString'', JNum (Finite 1))], baseUrl = JUndefined,
     defaultModel = JUndefined\<rparr>"

definition fill_calls :: "factory_call list" where
  "fill_calls = map (\<lambda>n. CreateLLM None cfg_no_key (Some (cfg_of n))) [1..<21]"

definition env_example :: "nat \<Rightarrow> round_env" where
  "env_example i = \<lparr>search_result = Some [JStr (js ''r1''), JStr (js ''r2''), JStr (js ''r3'')],
     expert_results = [(1, Some (JStr (js ''x1''))), (0, None)],
     synthesis_result = Some (JStr (js ''4''), False)\<rparr>"

section \<open>Invariants used in the proofs\<close>

definition cache_inv :: "llm_provider jsmap \<Rightarrow> bool" where
  "cache_inv m \<longleftrightarrow> length m \<le> MAX_CACHE_SIZE \<and> [] \<notin> fst ` set m \<and> distinct (map fst m)"

text \<open>
  At most one loop is suspended, and none while \<open>isProcessing\<close> is false.
\<close>

definition single_run :: "session \<Rightarrow> bool" where
  "single_run s \<longleftrightarrow>
     (isProcessing s \<longrightarrow> length (running s) \<le> 1) \<and> (\<not> isProcessing s \<longrightarrow> running s = [])"

definition quiet :: "'a stage \<Rightarrow> bool" where
  "quiet m \<longleftrightarrow> (\<forall>ev \<in> set (fst m). \<not> is_Complete ev \<and> \<not> is_Error ev)"

definition never_cancelled :: "'a stage \<Rightarrow> bool" where
  "never_cancelled m \<longleftrightarrow> snd m \<noteq> Inl Cancelled"

section \<open>Evaluating the examples\<close>

lemma js_unit_inj: "(of_nat (of_char c) :: 16 word) = of_nat (of_char d) \<longleftrightarrow> c = d"
proof
  assume "(of_nat (of_char c) :: 16 word) = of_nat (of_char d)"
  then have "unat (of_nat (of_char c) :: 16 word) = unat (of_nat (of_char d) :: 16 word)"
    by simp
  then have "(of_char c :: nat) mod 65536 = of_char d mod 65536"
    by (simp add: unat_of_nat)
  moreover have "(of_char x :: nat) mod 65536 = of_char x" for x
    by (rule mod_less) (rule order_less_trans [OF nat_of_char_less_256], simp)
  ultimately have "(of_char c :: nat) = of_char d"
    by (simp only:)
  then show "c = d"
    by simp
qed simp

lemma js_eq_iff: "js a = js b \<longleftrightarrow> a = b"
proof -
  have "inj (\<lambda>c. of_nat (of_char c) :: 16 word)"
    by (rule injI) (simp add: js_unit_inj)
  then show ?thesis
    unfolding js_def by (simp add: inj_map_eq_map)
qed

lemma js_Nil_iff: "js a = [] \<longleftrightarrow> a = []" "[] = js a \<longleftrightarrow> a = []"
  by (auto simp: js_def)

lemma length_js: "length (js a) = length a"
  by (simp add: js_def)

lemma parse_examples_simps:
  \<open>parse_examples (js ''null'') = Some JNull\<close>
  \<open>parse_examples (js ''{"query":"a"}'') = Some (JObj [(js ''query'', JStr (js ''a''))])\<close>
  \<open>parse_examples (js ''{"query":"b"}'') = Some (JObj [(js ''query'', JStr (js ''b''))])\<close>
  \<open>parse_examples (js ''{"type":"cancel"}'') = Some (JObj [(js ''type'', JStr (js ''cancel''))])\<close>
  \<open>parse_examples (js ''{"type":"ping"}'') = Some (JObj [(js ''type'', JStr (js ''ping''))])\<close>
  \<open>parse_examples (js ''{"query":"hi","model":""}'') =
     Some (JObj [(js ''query'', JStr (js ''hi'')), (js ''model'', JStr [])])\<close>
  \<open>parse_examples (js ''{"query":" hi ","model":"m1","maxRounds":3}'') =
     Some (JObj [(js ''query'', JStr (js '' hi '')), (js ''model'', JStr (js ''m1'')),
                 (js ''maxRounds'', JNum (Finite 3))])\<close>
  \<open>parse_examples (js ''{"query":"  "}'') = Some (JObj [(js ''query'', JStr (js ''  ''))])\<close>
  by (simp_all add: parse_examples_def js_eq_iff)

lemma is_ws_examples: "\<not> is_ws 0x61" "\<not> is_ws 0x62" "\<not> is_ws 0x68" "\<not> is_ws 0x69" "is_ws 0x20"
  by (simp_all add: is_ws_def)

lemma trim_examples:
  "trim (js ''a'') = js ''a''" "trim (js ''b'') = js ''b''" "trim (js ''hi'') = js ''hi''"
  "trim (js '' hi '') = js ''hi''" "trim (js ''  '') = []"
  by (simp_all add: trim_def js_def is_ws_examples)

lemmas handler_eval =
  on_message_def read_type_def query_of_def streamConfig_def js_or_def MAX_MESSAGE_SIZE_def
  safeSend_def socket_send_def handler_catch_def js_Error_def abort_def session_init_def
  run_session_def
  parse_examples_simps trim_examples js_eq_iff js_Nil_iff length_js

lemma one_run_eq:
  "one_run = \<lparr>isProcessing = True, currentEngine = Some 0, readyState = 1, sent = [],
     engines = 1, streams = [(0, js ''a'', JObj [(js ''maxRounds'', JNum (Finite 1))])],
     running = [0], aborted = []\<rparr>"
  by (simp add: one_run_def handler_eval)

section \<open>The provider cache\<close>

lemma js_colon_nonempty: "js '':'' \<noteq> []"
  by (simp add: js_def)

lemma getCacheKey_nonempty: "getCacheKey fmt config = Inr k \<Longrightarrow> k \<noteq> []"
  by (auto simp: getCacheKey_def then_str_def js_colon_nonempty split: sum.splits)

lemma js_Error_simps:
  "\<not> nullish (js_Error m)" "property (js_Error m) (js ''message'') = JStr m"
  by (simp_all add: js_Error_def)

lemma map_get_None_iff: "map_get m k = None \<longleftrightarrow> k \<notin> fst ` set m"
  by (simp add: map_get_def map_of_eq_None_iff)

lemma keys_map_set: "fst ` set (map_set k v m) = insert k (fst ` set m)"
  by (induction m) auto

lemma length_map_set_new: "k \<notin> fst ` set m \<Longrightarrow> map_set k v m = m @ [(k, v)]"
  by (induction m) auto

lemma distinct_map_set: "distinct (map fst m) \<Longrightarrow> distinct (map fst (map_set k v m))"
  by (induction m) (auto simp: keys_map_set)

lemma map_get_map_set: "map_get (map_set k v m) k = Some v"
  by (induction m) (auto simp: map_get_def)

lemma map_delete_first:
  "distinct (map fst ((k, v) # m)) \<Longrightarrow> map_delete k ((k, v) # m) = m"
  by (auto simp: map_delete_def filter_id_conv)

lemma evict_full:
  assumes "cache_inv m" "MAX_CACHE_SIZE \<le> map_size m"
  shows "evict m = tl m"
proof (cases m)
  case Nil
  with assms show ?thesis by (simp add: map_size_def MAX_CACHE_SIZE_def)
next
  case (Cons e m')
  obtain k v where e: "e = (k, v)" by (cases e)
  from assms(1) Cons e have "k \<noteq> []" and "distinct (map fst ((k, v) # m'))"
    by (auto simp: cache_inv_def)
  with assms(2) Cons e show ?thesis
    by (simp add: evict_def map_delete_first del: distinct.simps)
qed

lemma evict_not_full: "map_size m < MAX_CACHE_SIZE \<Longrightarrow> evict m = m"
  by (simp add: evict_def)

lemma evict_inv:
  assumes "cache_inv m"
  shows "length (evict m) < MAX_CACHE_SIZE \<and> [] \<notin> fst ` set (evict m)
         \<and> distinct (map fst (evict m)) \<and> fst ` set (evict m) \<subseteq> fst ` set m"
proof (cases "MAX_CACHE_SIZE \<le> map_size m")
  case True
  have "evict m = tl m" using assms True by (rule evict_full)
  moreover have "m \<noteq> []" using True by (auto simp: map_size_def MAX_CACHE_SIZE_def)
  ultimately show ?thesis using assms
    by (cases m) (auto simp: cache_inv_def)
next
  case False
  then show ?thesis using assms by (auto simp: evict_not_full cache_inv_def map_size_def)
qed

lemma set_evict: "set (evict m) \<subseteq> set m"
  by (auto simp: evict_def map_delete_def split: option.splits)

lemma createLLM_inv:
  assumes "cache_inv (cache st)"
  shows "cache_inv (cache (snd (createLLM fmt ctor dflt c st)))"
proof -
  have E: "length (evict (cache st)) < MAX_CACHE_SIZE" "[] \<notin> fst ` set (evict (cache st))"
     "distinct (map fst (evict (cache st)))" "fst ` set (evict (cache st)) \<subseteq> fst ` set (cache st)"
    using evict_inv [OF assms] by auto
  then have ev: "cache_inv (evict (cache st))"
    by (simp add: cache_inv_def)
  have "cache_inv (map_set k p (evict (cache st)))"
    if "getCacheKey fmt (effective_config dflt c) = Inr k" and "map_get (cache st) k = None"
    for k p
  proof -
    from that(2) E(4) have "k \<notin> fst ` set (evict (cache st))"
      by (auto simp: map_get_None_iff)
    then have "map_set k p (evict (cache st)) = evict (cache st) @ [(k, p)]"
      by (rule length_map_set_new)
    with E \<open>k \<notin> fst ` set (evict (cache st))\<close> show ?thesis
      using getCacheKey_nonempty [OF that(1)]
      by (auto simp: cache_inv_def)
  qed
  with assms ev show ?thesis
    by (auto simp: createLLM_def Let_def split: option.splits sum.splits)
qed

lemma factory_step_inv:
  "cache_inv (cache (factory_step fmt st call))" if "cache_inv (cache st)"
proof (cases call)
  case (CreateLLM ctor dflt c)
  then show ?thesis using that by (simp add: createLLM_inv)
next
  case ClearCache
  then show ?thesis by (simp add: clearCache_def cache_inv_def)
qed

lemma foldl_inv: "cache_inv (cache st) \<Longrightarrow> cache_inv (cache (foldl (factory_step fmt) st calls))"
  by (induction calls arbitrary: st) (auto simp: factory_step_inv)

lemma factory_run_inv: "cache_inv (cache (factory_run fmt calls))"
  unfolding factory_run_def by (rule foldl_inv) (simp add: factory_init_def cache_inv_def)

lemma createLLM_no_key:
  "\<not> truthy (apiKey (effective_config dflt c)) \<Longrightarrow>
   createLLM fmt ctor dflt c st = (Inl (js_Error API_KEY_MISSING), st)"
  by (simp add: createLLM_def)

lemma createLLM_throws_iff:
  assumes "truthy (apiKey (effective_config dflt c))"
  shows "fst (createLLM fmt ctor dflt c st) = Inl err \<longleftrightarrow>
     getCacheKey fmt (effective_config dflt c) = Inl err \<or>
     (\<exists>k. getCacheKey fmt (effective_config dflt c) = Inr k \<and> map_get (cache st) k = None \<and>
          ctor = Some err)"
  using assms by (auto simp: createLLM_def Let_def split: option.splits sum.splits)

lemma createLLM_throws_nothing_cached:
  assumes "fst (createLLM fmt ctor dflt c st) = Inl err"
  shows "constructed (snd (createLLM fmt ctor dflt c st)) = constructed st \<and>
     set (cache (snd (createLLM fmt ctor dflt c st))) \<subseteq> set (cache st)"
  using assms set_evict [of "cache st"]
  by (auto simp: createLLM_def Let_def split: option.splits sum.splits if_splits)

lemma API_KEY_MISSING_nonempty: "API_KEY_MISSING \<noteq> []"
  by (simp add: API_KEY_MISSING_def js_def)

lemma createLLM_cached:
  assumes "truthy (apiKey (effective_config dflt c))"
    and "getCacheKey fmt (effective_config dflt c) = Inr k"
  shows "\<exists>p. fst (createLLM fmt None dflt c st) = Inr p \<and>
             map_get (cache (snd (createLLM fmt None dflt c st))) k = Some p"
  using assms by (auto simp: createLLM_def Let_def map_get_map_set split: option.splits)

lemma createLLM_hit:
  assumes "truthy (apiKey (effective_config dflt c))"
    and "getCacheKey fmt (effective_config dflt c) = Inr k"
    and "map_get (cache st) k = Some p"
  shows "createLLM fmt ctor dflt c st = (Inr p, st)"
  using assms by (simp add: createLLM_def Let_def)

text \<open>
  Claim C8. After any history of \<open>createLLM\<close> and \<open>clearCache\<close> calls, whatever the calls
  throw, the cache holds at most \<open>MAX_CACHE_SIZE\<close> (20) entries; and when a call misses on
  a full cache, the entry inserted first (the head of the iteration order) is the one
  evicted and the new provider is appended: eviction is first in, first out. The
  eviction comes before the construction: should the constructor throw, the oldest
  entry is gone all the same.
\<close>

theorem cache_bounded_fifo:
  "map_size (cache (factory_run fmt calls)) \<le> MAX_CACHE_SIZE \<and>
   (\<forall>dflt c k. truthy (apiKey (effective_config dflt c)) \<and>
      getCacheKey fmt (effective_config dflt c) = Inr k \<and>
      map_get (cache (factory_run fmt calls)) k = None \<and>
      MAX_CACHE_SIZE \<le> map_size (cache (factory_run fmt calls)) \<longrightarrow>
      (\<exists>p. fst (createLLM fmt None dflt c (factory_run fmt calls)) = Inr p \<and>
       cache (snd (createLLM fmt None dflt c (factory_run fmt calls))) =
         tl (cache (factory_run fmt calls)) @ [(k, p)]) \<and>
      (\<forall>err. createLLM fmt (Some err) dflt c (factory_run fmt calls) =
         (Inl err, (factory_run fmt calls)\<lparr>cache := tl (cache (factory_run fmt calls))\<rparr>)))"
proof -
  let ?st = "factory_run fmt calls"
  have inv: "cache_inv (cache ?st)" by (rule factory_run_inv)
  then have bound: "map_size (cache ?st) \<le> MAX_CACHE_SIZE"
    by (simp add: cache_inv_def map_size_def)
  have fifo: "(\<exists>p. fst (createLLM fmt None dflt c ?st) = Inr p \<and>
       cache (snd (createLLM fmt None dflt c ?st)) = tl (cache ?st) @ [(k, p)]) \<and>
      (\<forall>err. createLLM fmt (Some err) dflt c ?st = (Inl err, ?st\<lparr>cache := tl (cache ?st)\<rparr>))"
    if t: "truthy (apiKey (effective_config dflt c))"
      and key: "getCacheKey fmt (effective_config dflt c) = Inr k"
      and miss: "map_get (cache ?st) k = None"
      and full: "MAX_CACHE_SIZE \<le> map_size (cache ?st)" for dflt c k
  proof -
    have ev: "evict (cache ?st) = tl (cache ?st)" using inv full by (rule evict_full)
    have "k \<notin> fst ` set (cache ?st)" using miss by (simp add: map_get_None_iff)
    then have "k \<notin> fst ` set (tl (cache ?st))"
      by (cases "cache ?st") auto
    then have "map_set k p (tl (cache ?st)) = tl (cache ?st) @ [(k, p)]" for p
      by (rule length_map_set_new)
    with t key miss ev show ?thesis
      by (simp add: createLLM_def Let_def)
  qed
  from bound fifo show ?thesis by blast
qed

text \<open>
  Twenty distinct keys fill the cache; the twenty-first call evicts the oldest key and
  the size stays 20.
\<close>

theorem cache_bounded_fifo_witness:
  "map_size (cache (factory_run no_conv fill_calls)) = MAX_CACHE_SIZE \<and>
   map_size (cache (snd (createLLM no_conv None cfg_no_key (Some (cfg_of 21))
      (factory_run no_conv fill_calls)))) = MAX_CACHE_SIZE \<and>
   getCacheKey no_conv (cfg_of 21) = Inr (js ''openai:'' @ [21] @ js ''::'') \<and>
   map fst (cache (snd (createLLM no_conv None cfg_no_key (Some (cfg_of 21))
      (factory_run no_conv fill_calls)))) =
     map fst (tl (cache (factory_run no_conv fill_calls))) @ [js ''openai:'' @ [21] @ js ''::'']"
proof -
  let ?st = "factory_run no_conv fill_calls"
  let ?k = "js ''openai:'' @ [21] @ js ''::''"
  have full: "map_size (cache ?st) = MAX_CACHE_SIZE"
    by code_simp
  have e: "effective_config cfg_no_key (Some (cfg_of 21)) = cfg_of 21"
    by (simp add: effective_config_def)
  have key: "getCacheKey no_conv (cfg_of 21) = Inr ?k"
    by code_simp
  have miss: "map_get (cache ?st) ?k = None"
    by code_simp
  have t: "truthy (apiKey (cfg_of 21))"
    by code_simp
  from cache_bounded_fifo [of no_conv fill_calls] t key miss full
  have "\<exists>p. fst (createLLM no_conv None cfg_no_key (Some (cfg_of 21)) ?st) = Inr p \<and>
      cache (snd (createLLM no_conv None cfg_no_key (Some (cfg_of 21)) ?st)) =
        tl (cache ?st) @ [(?k, p)]"
    by (metis e order_refl)
  then obtain p where "cache (snd (createLLM no_conv None cfg_no_key (Some (cfg_of 21)) ?st)) =
      tl (cache ?st) @ [(?k, p)]"
    by blast
  with full key show ?thesis
    by (simp add: map_size_def MAX_CACHE_SIZE_def)
qed

text \<open>
  Claim C10. \<open>getCacheKey\<close> is not injective: the fields are joined with a colon and may
  themselves contain one. There are two configs with different \<open>apiKey\<close> and \<open>baseUrl\<close>
  and the same key (\<^verbatim>\<open>a:b\<close> with no base URL, and \<^verbatim>\<open>a\<close> with base URL \<^verbatim>\<open>b:\<close>), and
  from any static state, once \<open>createLLM\<close> has returned a provider for the first, it
  returns that very instance for the second, constructing nothing (whatever its
  constructor would do).
\<close>

theorem getCacheKey_not_injective:
  "\<exists>c1 c2. apiKey c1 \<noteq> apiKey c2 \<and> baseUrl c1 \<noteq> baseUrl c2 \<and>
     getCacheKey fmt c1 = getCacheKey fmt c2 \<and>
     getCacheKey fmt c1 = Inr (js ''openai:a:b::c'') \<and>
     (\<forall>dflt st ctor. \<exists>p. fst (createLLM fmt None dflt (Some c1) st) = Inr p \<and>
        createLLM fmt ctor dflt (Some c2) (snd (createLLM fmt None dflt (Some c1) st)) =
          (Inr p, snd (createLLM fmt None dflt (Some c1) st)))"
proof -
  let ?c1 = "\<lparr>provider = JUndefined, apiKey = JStr (js ''a:b''), baseUrl = JUndefined,
              defaultModel = JStr (js ''c'')\<rparr>"
  let ?c2 = "\<lparr>provider = JUndefined, apiKey = JStr (js ''a''), baseUrl = JStr (js ''b:''),
              defaultModel = JStr (js ''c'')\<rparr>"
  let ?k = "js ''openai:a:b::c''"
  have k1: "getCacheKey fmt ?c1 = Inr ?k"
    by (simp add: getCacheKey_def then_str_def js_or_def js_def)
  have k2: "getCacheKey fmt ?c2 = Inr ?k"
    by (simp add: getCacheKey_def then_str_def js_or_def js_def)
  have e: "effective_config dflt (Some c) = c" for dflt c
    by (simp add: effective_config_def)
  have t: "truthy (apiKey (effective_config dflt (Some ?c1)))"
          "truthy (apiKey (effective_config dflt (Some ?c2)))" for dflt
    by (simp_all add: e js_def)
  have "\<exists>p. fst (createLLM fmt None dflt (Some ?c1) st) = Inr p \<and>
        createLLM fmt ctor dflt (Some ?c2) (snd (createLLM fmt None dflt (Some ?c1) st)) =
          (Inr p, snd (createLLM fmt None dflt (Some ?c1) st))" for dflt st ctor
  proof -
    have "getCacheKey fmt (effective_config dflt (Some ?c1)) = Inr ?k"
      by (simp only: e k1)
    from createLLM_cached [OF t(1) this, of st]
    obtain p where p: "fst (createLLM fmt None dflt (Some ?c1) st) = Inr p"
      "map_get (cache (snd (createLLM fmt None dflt (Some ?c1) st))) ?k = Some p"
      by blast
    have "getCacheKey fmt (effective_config dflt (Some ?c2)) = Inr ?k"
      by (simp only: e k2)
    from createLLM_hit [OF t(2) this p(2)] p(1) show ?thesis by blast
  qed
  moreover have "apiKey ?c1 \<noteq> apiKey ?c2" "baseUrl ?c1 \<noteq> baseUrl ?c2"
    by (simp_all add: js_def)
  ultimately show ?thesis using k1 k2 by (metis (no_types))
qed

section \<open>The message handler\<close>

lemma js_or_message_str: "m \<noteq> [] \<Longrightarrow> js_or (JStr m) d = JStr m"
  by (simp add: js_or_def)

lemma handler_catch_idle:
  "\<not> nullish err \<Longrightarrow>
   \<not> isProcessing (handler_catch err s) \<and> currentEngine (handler_catch err s) = None"
  by (simp add: handler_catch_def)

lemma handler_catch_nullish: "nullish err \<Longrightarrow> handler_catch err s = s"
  by (simp add: handler_catch_def)

lemma handler_catch_sent:
  "readyState s = 1 \<Longrightarrow> \<not> nullish err \<Longrightarrow>
   sent (handler_catch err s) =
     sent s @ [error_event (js_or (property err (js ''message'')) (JStr (js ''Unknown error'')))]"
  by (simp add: handler_catch_def safeSend_def socket_send_def)

lemma handler_catch_rest:
  "engines (handler_catch err s) = engines s \<and> streams (handler_catch err s) = streams s \<and>
   running (handler_catch err s) = running s \<and> aborted (handler_catch err s) = aborted s
   \<and> readyState (handler_catch err s) = readyState s"
  by (simp add: handler_catch_def safeSend_def socket_send_def)

lemma safeSend_open: "readyState s = 1 \<Longrightarrow> sent (safeSend p s) = sent s @ [p]"
  by (simp add: safeSend_def socket_send_def)

lemma safeSend_rest:
  "engines (safeSend p s) = engines s \<and> streams (safeSend p s) = streams s \<and>
   running (safeSend p s) = running s \<and> aborted (safeSend p s) = aborted s \<and>
   isProcessing (safeSend p s) = isProcessing s \<and> currentEngine (safeSend p s) = currentEngine s
   \<and> readyState (safeSend p s) = readyState s"
  by (simp add: safeSend_def socket_send_def)

lemma read_type_Inr: "\<not> nullish data \<Longrightarrow> read_type data = Inr (property data (js ''type''))"
  by (simp add: read_type_def)

lemma read_type_Inl:
  "nullish data \<Longrightarrow> \<exists>m. m \<noteq> [] \<and> read_type data = Inl (js_Error m)"
  by (force simp: read_type_def js_def)

lemma nullish_property: "nullish data \<Longrightarrow> property data name = JUndefined"
  by (cases data) simp_all

lemma query_of_bad:
  "(case property data (js ''query'') of JStr q \<Rightarrow> trim q = [] \<or> length (trim q) > 50000 | _ \<Rightarrow> True)
   \<longleftrightarrow> query_of data = [] \<or> length (query_of data) > 50000"
  by (simp add: query_of_def split: jsval.splits)

lemma rejected_by_safeSend:
  assumes "readyState s = 1" and "r = safeSend (error_event (JStr m)) s"
  shows "\<exists>m. sent r = sent s @ [JObj [(js ''type'', JStr (js ''error'')), (js ''message'', JStr m)]] \<and>
             engines r = engines s \<and>
             streams r = streams s \<and> running r = running s \<and> aborted r = aborted s"
  using assms by (auto simp: safeSend_def socket_send_def error_event_def)

lemma rejected_by_catch:
  assumes "readyState s = 1" and "m \<noteq> []" and "r = handler_catch (js_Error m) s"
  shows "\<exists>m. sent r = sent s @ [JObj [(js ''type'', JStr (js ''error'')), (js ''message'', JStr m)]] \<and>
             engines r = engines s \<and>
             streams r = streams s \<and> running r = running s \<and> aborted r = aborted s"
  using assms
  by (auto simp: handler_catch_def safeSend_def socket_send_def js_or_def error_event_def
        js_Error_simps)

lemma js_lits:
  "js ''node_start'' \<noteq> js ''expert_complete''"
  "js ''node_start'' \<noteq> js ''node_complete''"
  "js ''node_start'' \<noteq> js ''complete''"
  "js ''expert_complete'' \<noteq> js ''node_complete''"
  "js ''expert_complete'' \<noteq> js ''complete''"
  "js ''node_complete'' \<noteq> js ''complete''"
  by (simp_all add: js_def)

lemma on_message_accepts:
  assumes "length msgStr \<le> MAX_MESSAGE_SIZE" and "JSON_parse msgStr = Some data"
    and "\<not> nullish data"
    and "property data (js ''type'') \<noteq> JStr (js ''ping'')"
    and "property data (js ''type'') \<noteq> JStr (js ''cancel'')"
    and "\<not> isProcessing s" and "query_of data \<noteq> []" and "length (query_of data) \<le> 50000"
  shows "on_message JSON_parse None msgStr s =
     s\<lparr>isProcessing := True, currentEngine := Some (engines s), engines := Suc (engines s),
       streams := streams s @ [(engines s, query_of data, streamConfig data)],
       running := running s @ [engines s]\<rparr>"
  using assms by (simp add: on_message_def read_type_Inr Let_def)

text \<open>
  Claim C2, as amended. When the handler starts a run, the config it passes to
  \<^verbatim>\<open>engine.stream\<close> has \<^verbatim>\<open>maxRounds\<close> equal to the message's \<^verbatim>\<open>maxRounds\<close> when that is
  truthy and 1 otherwise, and each of \<^verbatim>\<open>defaultModel\<close> (from \<^verbatim>\<open>model\<close>), \<^verbatim>\<open>apiKey\<close>, \<^verbatim>\<open>baseUrl\<close>
  and \<^verbatim>\<open>fileContext\<close> is a key of the config if and only if the message's field is truthy,
  then with the message's value. Every value in the config is truthy, so no entry is
  \<^verbatim>\<open>undefined\<close> or \<^verbatim>\<open>null\<close>.
\<close>

theorem streamConfig_only_truthy_fields:
  assumes "length msgStr \<le> MAX_MESSAGE_SIZE" and "JSON_parse msgStr = Some data"
    and "\<not> nullish data"
    and "property data (js ''type'') \<noteq> JStr (js ''ping'')"
    and "property data (js ''type'') \<noteq> JStr (js ''cancel'')"
    and "\<not> isProcessing s" and "query_of data \<noteq> []" and "length (query_of data) \<le> 50000"
  shows "\<exists>kvs. streams (on_message JSON_parse None msgStr s) =
              streams s @ [(engines s, query_of data, JObj kvs)] \<and>
     map_of kvs (js ''maxRounds'') =
       Some (if truthy (property data (js ''maxRounds'')) then property data (js ''maxRounds'')
             else JNum (Finite 1)) \<and>
     map_of kvs (js ''defaultModel'') =
       (if truthy (property data (js ''model'')) then Some (property data (js ''model''))
        else None) \<and>
     map_of kvs (js ''apiKey'') =
       (if truthy (property data (js ''apiKey'')) then Some (property data (js ''apiKey''))
        else None) \<and>
     map_of kvs (js ''baseUrl'') =
       (if truthy (property data (js ''baseUrl'')) then Some (property data (js ''baseUrl''))
        else None) \<and>
     map_of kvs (js ''fileContext'') =
       (if truthy (property data (js ''fileContext''))
        then Some (property data (js ''fileContext'')) else None) \<and>
     (\<forall>kv \<in> set kvs. truthy (snd kv))"
proof -
  let ?kvs = "[(js ''maxRounds'', js_or (property data (js ''maxRounds'')) (JNum (Finite 1)))] @
     (if truthy (property data (js ''model''))
      then [(js ''defaultModel'', property data (js ''model''))] else []) @
     (if truthy (property data (js ''apiKey''))
      then [(js ''apiKey'', property data (js ''apiKey''))] else []) @
     (if truthy (property data (js ''baseUrl''))
      then [(js ''baseUrl'', property data (js ''baseUrl''))] else []) @
     (if truthy (property data (js ''fileContext''))
      then [(js ''fileContext'', property data (js ''fileContext''))] else [])"
  have "streams (on_message JSON_parse None msgStr s) =
          streams s @ [(engines s, query_of data, JObj ?kvs)]"
    using on_message_accepts [where JSON_parse = JSON_parse and msgStr = msgStr
        and data = data and s = s] assms
    by (simp add: streamConfig_def)
  moreover have "map_of ?kvs (js ''maxRounds'') =
       Some (if truthy (property data (js ''maxRounds'')) then property data (js ''maxRounds'')
             else JNum (Finite 1))"
    by (simp add: js_or_def)
  moreover have "map_of ?kvs (js ''defaultModel'') =
       (if truthy (property data (js ''model'')) then Some (property data (js ''model''))
        else None)"
    by (simp add: js_eq_iff)
  moreover have "map_of ?kvs (js ''apiKey'') =
       (if truthy (property data (js ''apiKey'')) then Some (property data (js ''apiKey''))
        else None)"
    by (simp add: js_eq_iff)
  moreover have "map_of ?kvs (js ''baseUrl'') =
       (if truthy (property data (js ''baseUrl'')) then Some (property data (js ''baseUrl''))
        else None)"
    by (simp add: js_eq_iff)
  moreover have "map_of ?kvs (js ''fileContext'') =
       (if truthy (property data (js ''fileContext''))
        then Some (property data (js ''fileContext'')) else None)"
    by (simp add: js_eq_iff)
  moreover have "\<forall>kv \<in> set ?kvs. truthy (snd kv)"
    by (auto simp: js_or_def)
  ultimately show ?thesis by blast
qed

text \<open>
  A message with a model and three rounds: both reach the config, trimmed query
  included, and no \<^verbatim>\<open>apiKey\<close> key appears.
\<close>

theorem streamConfig_only_truthy_fields_witness:
  \<open>streams (on_message parse_examples None
      (js ''{"query":" hi ","model":"m1","maxRounds":3}'') session_init) =
     [(0, js ''hi'', JObj [(js ''maxRounds'', JNum (Finite 3)),
                           (js ''defaultModel'', JStr (js ''m1''))])] \<and>
   (\<exists>kvs. streams (on_message parse_examples None
      (js ''{"query":" hi ","model":"m1","maxRounds":3}'') session_init) =
        streams session_init @ [(engines session_init, js ''hi'', JObj kvs)] \<and>
      map_of kvs (js ''maxRounds'') = Some (JNum (Finite 3)) \<and>
      map_of kvs (js ''defaultModel'') = Some (JStr (js ''m1'')) \<and>
      map_of kvs (js ''apiKey'') = None \<and>
      (\<forall>kv \<in> set kvs. truthy (snd kv)))\<close>
proof -
  let ?raw = \<open>js ''{"query":" hi ","model":"m1","maxRounds":3}''\<close>
  let ?data = "JObj [(js ''query'', JStr (js '' hi '')), (js ''model'', JStr (js ''m1'')),
                 (js ''maxRounds'', JNum (Finite 3))]"
  have h: "length ?raw \<le> MAX_MESSAGE_SIZE" "parse_examples ?raw = Some ?data"
    "\<not> nullish ?data" "property ?data (js ''type'') \<noteq> JStr (js ''ping'')"
    "property ?data (js ''type'') \<noteq> JStr (js ''cancel'')"
    "\<not> isProcessing session_init" "query_of ?data \<noteq> []" "length (query_of ?data) \<le> 50000"
    by (simp_all add: handler_eval)
  have p: "property ?data (js ''maxRounds'') = JNum (Finite 3)"
    "property ?data (js ''model'') = JStr (js ''m1'')"
    "property ?data (js ''apiKey'') = JUndefined" "query_of ?data = js ''hi''"
    by (simp_all add: handler_eval)
  have e: "streams (on_message parse_examples None ?raw session_init) =
     [(0, js ''hi'', JObj [(js ''maxRounds'', JNum (Finite 3)),
                           (js ''defaultModel'', JStr (js ''m1''))])]"
    by (simp add: handler_eval)
  from streamConfig_only_truthy_fields [where JSON_parse = parse_examples and msgStr = ?raw
      and data = ?data and s = session_init] h
  obtain kvs where "streams (on_message parse_examples None ?raw session_init) =
        streams session_init @ [(engines session_init, query_of ?data, JObj kvs)]"
    "map_of kvs (js ''maxRounds'') =
       Some (if truthy (property ?data (js ''maxRounds'')) then property ?data (js ''maxRounds'')
             else JNum (Finite 1))"
    "map_of kvs (js ''defaultModel'') =
       (if truthy (property ?data (js ''model'')) then Some (property ?data (js ''model''))
        else None)"
    "map_of kvs (js ''apiKey'') =
       (if truthy (property ?data (js ''apiKey'')) then Some (property ?data (js ''apiKey''))
        else None)"
    "\<forall>kv \<in> set kvs. truthy (snd kv)"
    by blast
  then have "streams (on_message parse_examples None ?raw session_init) =
        streams session_init @ [(engines session_init, js ''hi'', JObj kvs)] \<and>
      map_of kvs (js ''maxRounds'') = Some (JNum (Finite 3)) \<and>
      map_of kvs (js ''defaultModel'') = Some (JStr (js ''m1'')) \<and>
      map_of kvs (js ''apiKey'') = None \<and>
      (\<forall>kv \<in> set kvs. truthy (snd kv))"
    by (simp add: p js_Nil_iff js_eq_iff)
  with e show ?thesis by blast
qed

text \<open>
  Claim C2 as stated fails: a field that is present but falsy is left out. The message
  \<^verbatim>\<open>{"query":"hi","model":""}\<close> has a \<^verbatim>\<open>model\<close> field, and the config passed on has no
  \<^verbatim>\<open>defaultModel\<close> key.
\<close>

theorem empty_model_present_but_not_forwarded:
  \<open>parse_examples (js ''{"query":"hi","model":""}'') =
     Some (JObj [(js ''query'', JStr (js ''hi'')), (js ''model'', JStr [])]) \<and>
   map_of [(js ''query'', JStr (js ''hi'')), (js ''model'', JStr [])] (js ''model'') =
     Some (JStr []) \<and>
   streams (on_message parse_examples None (js ''{"query":"hi","model":""}'') session_init) =
     [(0, js ''hi'', JObj [(js ''maxRounds'', JNum (Finite 1))])]\<close>
  by (simp add: handler_eval)

text \<open>
  The guard as written: while \<open>isProcessing\<close> is set, a query is answered with an error
  and no engine is constructed.
\<close>

lemma busy_session_rejects_query:
  assumes "isProcessing s" and "length msgStr \<le> MAX_MESSAGE_SIZE"
    and "JSON_parse msgStr = Some data" and "\<not> nullish data"
    and "property data (js ''type'') \<noteq> JStr (js ''ping'')"
    and "property data (js ''type'') \<noteq> JStr (js ''cancel'')"
  shows "on_message JSON_parse ctor msgStr s =
     safeSend (error_event (JStr (js
       ''Already processing a query. Please wait or send cancel.''))) s"
  using assms by (simp add: on_message_def read_type_Inr)

lemma single_run_safeSend: "single_run (safeSend p s) = single_run s"
  by (simp add: single_run_def safeSend_def socket_send_def)

lemma single_run_socket_send: "single_run (socket_send p s) = single_run s"
  by (simp add: single_run_def socket_send_def)

lemma single_run_abort: "single_run (abort e s) = single_run s"
  by (simp add: single_run_def abort_def)

lemma single_run_finally:
  assumes "single_run s" and "e \<in> set (running s)"
  shows "single_run (run_finally e s)"
proof -
  from assms have "running s = [e]"
    by (cases "running s"; cases "isProcessing s") (auto simp: single_run_def)
  then show ?thesis
    by (simp add: single_run_def run_finally_def)
qed

lemma running_finally_empty:
  assumes "single_run s" and "e \<in> set (running s)"
  shows "running (run_finally e s) = []"
proof -
  from assms have "running s = [e]"
    by (cases "running s"; cases "isProcessing s") (auto simp: single_run_def)
  then show ?thesis
    by (simp add: run_finally_def)
qed

lemma single_run_catch:
  assumes "running s = []"
  shows "single_run (handler_catch err s)"
  using assms by (simp add: single_run_def handler_catch_def safeSend_def socket_send_def)

lemma single_run_on_message:
  assumes "single_run s" and "\<And>data. JSON_parse msgStr = Some data \<Longrightarrow> \<not> nullish data"
  shows "single_run (on_message JSON_parse ctor msgStr s)"
proof (cases "JSON_parse msgStr")
  case None
  with assms(1) show ?thesis
    by (simp add: on_message_def single_run_safeSend)
next
  case (Some data)
  with assms(2) have rt: "read_type data = Inr (property data (js ''type''))"
    by (simp add: read_type_def)
  have idle: "running s = []" if "\<not> isProcessing s"
    using assms(1) that by (simp add: single_run_def)
  have c: "single_run (handler_catch err (s\<lparr>isProcessing := True\<rparr>))"
    if "\<not> isProcessing s" for err
    by (rule single_run_catch) (simp add: idle that)
  have st: "single_run (s\<lparr>isProcessing := True, currentEngine := Some (engines s),
        engines := Suc (engines s),
        streams := streams s @ [(engines s, q, cfg)],
        running := running s @ [engines s]\<rparr>)" if "\<not> isProcessing s" for q cfg
    using idle [OF that] by (simp add: single_run_def)
  from assms(1) Some rt c st show ?thesis
    by (auto simp: on_message_def Let_def single_run_safeSend single_run_socket_send
          single_run_abort split: option.splits)
qed

lemma single_run_step:
  assumes "single_run s" and "\<And>raw data. JSON_parse raw = Some data \<Longrightarrow> \<not> nullish data"
  shows "single_run (step JSON_parse s ev)"
proof (cases ev)
  case (Message msgStr ctor)
  with assms show ?thesis by (simp add: single_run_on_message)
next
  case (Update e u)
  have "single_run (run_finally e (abort e s))" if "e \<in> set (running s)"
  proof (rule single_run_finally)
    show "single_run (abort e s)"
      by (simp add: single_run_abort assms(1))
    show "e \<in> set (running (abort e s))"
      by (simp add: abort_def that)
  qed
  with Update assms(1) show ?thesis
    by (simp add: on_update_def single_run_safeSend split: option.splits)
next
  case (Done e)
  with assms(1) show ?thesis
    by (simp add: on_done_def single_run_finally)
next
  case (Throw e err)
  with assms(1) show ?thesis
    by (simp add: on_throw_def single_run_catch running_finally_empty)
next
  case (ReadyState n)
  with assms(1) show ?thesis by (auto simp: single_run_def)
next
  case Close
  with assms(1) show ?thesis
    by (auto simp: on_close_def single_run_def abort_def Let_def split: option.splits)
qed

text \<open>
  On a connection where no message parses to \<^verbatim>\<open>null\<close>, whatever else happens, at most one
  run is in flight at any time.
\<close>

lemma one_run_in_flight_without_null:
  assumes "\<And>raw data. JSON_parse raw = Some data \<Longrightarrow> \<not> nullish data"
  shows "length (running (run_session JSON_parse evs)) \<le> 1"
proof -
  have "single_run (foldl (step JSON_parse) s evs)" if "single_run s" for s
    using that by (induction evs arbitrary: s) (simp_all add: single_run_step assms)
  moreover have "single_run session_init"
    by (simp add: single_run_def session_init_def)
  ultimately have "single_run (run_session JSON_parse evs)"
    by (simp add: run_session_def)
  then show ?thesis
    by (cases "isProcessing (run_session JSON_parse evs)") (simp_all add: single_run_def)
qed

text \<open>
  Claim C3 fails on the code. A run is in flight; the message text \<^verbatim>\<open>null\<close> parses to
  \<^verbatim>\<open>null\<close>, reading \<^verbatim>\<open>data.type\<close> throws, and the handler's \<^verbatim>\<open>catch\<close> resets \<open>isProcessing\<close>
  and \<open>currentEngine\<close> although the run of the earlier message has not ended. The next
  query is accepted: a second engine is constructed and streamed while the first is
  still in flight, and the only payload sent is the error for the \<^verbatim>\<open>null\<close> message.
\<close>

theorem second_run_while_first_in_flight:
  "running (run_session parse_examples null_then_query) = [0, 1] \<and>
   map fst (streams (run_session parse_examples null_then_query)) = [0, 1] \<and>
   engines (run_session parse_examples null_then_query) = 2 \<and>
   length (sent (run_session parse_examples null_then_query)) = 1"
  by (simp add: null_then_query_def handler_eval)

text \<open>
  Claim C4, as amended. On an open socket, for every message whose text exceeds the
  size limit, or that parses to something other than a \<^verbatim>\<open>ping\<close> or \<^verbatim>\<open>cancel\<close> command and
  whose \<^verbatim>\<open>query\<close> is missing, not a string, trims to the empty string or is longer than
  50,000 units after trimming, the handler sends exactly one payload, of the shape
  \<^verbatim>\<open>{ type: "error", message: string }\<close>, and leaves the engines alone: none is
  constructed, streamed or aborted.
\<close>

theorem input_errors_rejected:
  assumes op: "readyState s = 1"
    and bad: "length msgStr > MAX_MESSAGE_SIZE \<or>
       JSON_parse msgStr = Some data \<and>
       property data (js ''type'') \<noteq> JStr (js ''ping'') \<and>
       property data (js ''type'') \<noteq> JStr (js ''cancel'') \<and>
       (case property data (js ''query'') of
          JStr q \<Rightarrow> trim q = [] \<or> length (trim q) > 50000
        | _ \<Rightarrow> True)"
  shows "\<exists>m. sent (on_message JSON_parse ctor msgStr s) = sent s @
             [JObj [(js ''type'', JStr (js ''error'')), (js ''message'', JStr m)]] \<and>
             engines (on_message JSON_parse ctor msgStr s) = engines s \<and>
             streams (on_message JSON_parse ctor msgStr s) = streams s \<and>
             running (on_message JSON_parse ctor msgStr s) = running s \<and>
             aborted (on_message JSON_parse ctor msgStr s) = aborted s"
proof (cases "length msgStr > MAX_MESSAGE_SIZE")
  case True
  then show ?thesis
    by (intro rejected_by_safeSend [OF op]) (simp add: on_message_def)
next
  case False
  with bad have p: "JSON_parse msgStr = Some data"
    and ty: "property data (js ''type'') \<noteq> JStr (js ''ping'')"
            "property data (js ''type'') \<noteq> JStr (js ''cancel'')"
    and q: "query_of data = [] \<or> length (query_of data) > 50000"
    by (simp_all add: query_of_bad)
  show ?thesis
  proof (cases "nullish data")
    case True
    then obtain m where "m \<noteq> []" "read_type data = Inl (js_Error m)"
      using read_type_Inl by blast
    with False p show ?thesis
      by (intro rejected_by_catch [OF op, of m]) (simp_all add: on_message_def)
  next
    case nn: False
    then have rt: "read_type data = Inr (property data (js ''type''))"
      by (rule read_type_Inr)
    show ?thesis
    proof (cases "isProcessing s")
      case True
      with False p rt ty show ?thesis
        by (intro rejected_by_safeSend [OF op]) (simp add: on_message_def)
    next
      case np: False
      from q show ?thesis
      proof
        assume "query_of data = []"
        with np False p rt ty show ?thesis
          by (intro rejected_by_safeSend [OF op]) (simp add: on_message_def)
      next
        assume "length (query_of data) > 50000"
        moreover from this have "query_of data \<noteq> []" by auto
        ultimately show ?thesis using np False p rt ty
          by (intro rejected_by_safeSend [OF op]) (simp add: on_message_def)
      qed
    qed
  qed
qed

text \<open>
  A query of two blanks on a fresh connection is answered by one error payload.
\<close>

theorem input_errors_rejected_witness:
  \<open>readyState session_init = 1 \<and>
   parse_examples (js ''{"query":"  "}'') = Some (JObj [(js ''query'', JStr (js ''  ''))]) \<and>
   trim (js ''  '') = [] \<and>
   (\<exists>m. sent (on_message parse_examples None (js ''{"query":"  "}'') session_init) =
           sent session_init @
             [JObj [(js ''type'', JStr (js ''error'')), (js ''message'', JStr m)]] \<and>
        engines (on_message parse_examples None (js ''{"query":"  "}'') session_init) =
           engines session_init \<and>
        running (on_message parse_examples None (js ''{"query":"  "}'') session_init) =
           running session_init)\<close>
proof -
  let ?raw = \<open>js ''{"query":"  "}''\<close>
  let ?data = "JObj [(js ''query'', JStr (js ''  ''))]"
  have o: "readyState session_init = 1"
    by (simp add: session_init_def)
  have p: "parse_examples ?raw = Some ?data"
    by (simp add: parse_examples_simps)
  have t: "trim (js ''  '') = []"
    by (simp add: trim_examples)
  have ty: "property ?data (js ''type'') \<noteq> JStr (js ''ping'')"
    "property ?data (js ''type'') \<noteq> JStr (js ''cancel'')"
    by (simp_all add: js_eq_iff)
  have q: "(case property ?data (js ''query'') of
          JStr q \<Rightarrow> trim q = [] \<or> length (trim q) > 50000
        | _ \<Rightarrow> True)"
    by (simp add: t)
  from input_errors_rejected [OF o, of ?raw parse_examples ?data None] p ty q
  have "\<exists>m. sent (on_message parse_examples None ?raw session_init) =
           sent session_init @
             [JObj [(js ''type'', JStr (js ''error'')), (js ''message'', JStr m)]] \<and>
        engines (on_message parse_examples None ?raw session_init) = engines session_init \<and>
        streams (on_message parse_examples None ?raw session_init) = streams session_init \<and>
        running (on_message parse_examples None ?raw session_init) = running session_init \<and>
        aborted (on_message parse_examples None ?raw session_init) = aborted session_init"
    by blast
  with o p t show ?thesis by blast
qed

text \<open>
  Claim C4 as stated fails: \<^verbatim>\<open>{"type":"ping"}\<close> has no \<^verbatim>\<open>query\<close> field, and the handler
  answers it with the pong payload, not with an error.
\<close>

theorem ping_without_query_gets_pong:
  \<open>parse_examples (js ''{"type":"ping"}'') = Some (JObj [(js ''type'', JStr (js ''ping''))]) \<and>
   property (JObj [(js ''type'', JStr (js ''ping''))]) (js ''query'') = JUndefined \<and>
   sent (on_message parse_examples None (js ''{"type":"ping"}'') session_init) =
     [JObj [(js ''type'', JStr (js ''pong''))]]\<close>
  by (simp add: handler_eval PONG_MSG_def)

text \<open>
  Claim C5. For an update that resumes the loop on an open socket, the payload sent
  is: for \<^verbatim>\<open>node_start\<close>, \<^verbatim>\<open>{ type: "state_update", node, status: "started", data }\<close> with
  \<^verbatim>\<open>data\<close> defaulting to \<^verbatim>\<open>{}\<close>; for \<^verbatim>\<open>expert_complete\<close>, \<^verbatim>\<open>{ type: "expert_complete", data }\<close>;
  for \<^verbatim>\<open>node_complete\<close>, \<^verbatim>\<open>{ type: "state_update", node, status: "completed" }\<close> with
  \<^verbatim>\<open>searchResults\<close> added exactly when the node is \<^verbatim>\<open>search\<close> and the state carries a
  (truthy) \<^verbatim>\<open>searchResults\<close>; for \<^verbatim>\<open>complete\<close>,
  \<^verbatim>\<open>{ type: "complete", data: { final_output, experts, searchResults } }\<close> read from the
  update's state. The loop stays suspended for the next update.
\<close>

theorem update_wire_shapes:
  assumes "e \<in> set (running s)" and "readyState s = 1"
  shows
   "(utype u = JStr (js ''node_start'') \<longrightarrow>
       sent (on_update e u s) = sent s @
         [JObj [(js ''type'', JStr (js ''state_update'')), (js ''node'', unode u),
                (js ''status'', JStr (js ''started'')),
                (js ''data'', if truthy (udata u) then udata u else JObj [])]]) \<and>
    (utype u = JStr (js ''expert_complete'') \<longrightarrow>
       sent (on_update e u s) = sent s @
         [JObj [(js ''type'', JStr (js ''expert_complete'')), (js ''data'', udata u)]]) \<and>
    (utype u = JStr (js ''node_complete'') \<longrightarrow>
       sent (on_update e u s) = sent s @
         [JObj ([(js ''type'', JStr (js ''state_update'')), (js ''node'', unode u),
                 (js ''status'', JStr (js ''completed''))] @
                (if unode u = JStr (js ''search'') \<and> \<not> nullish (ustate u) \<and>
                    truthy (property (ustate u) (js ''searchResults''))
                 then [(js ''searchResults'', property (ustate u) (js ''searchResults''))]
                 else []))]) \<and>
    (utype u = JStr (js ''complete'') \<longrightarrow>
       sent (on_update e u s) = sent s @
         [JObj [(js ''type'', JStr (js ''complete'')),
                (js ''data'', JObj
                   [(js ''final_output'', opt_chain (ustate u) (js ''finalOutput'')),
                    (js ''experts'', opt_chain (ustate u) (js ''expertsOutput'')),
                    (js ''searchResults'', opt_chain (ustate u) (js ''searchResults''))])]]) \<and>
    running (on_update e u s) = running s"
proof -
  have upd: "forward u = Some p \<Longrightarrow> sent (on_update e u s) = sent s @ [p]" for p
    using assms by (simp add: on_update_def safeSend_def socket_send_def)
  have run: "running (on_update e u s) = running s"
    using assms by (simp add: on_update_def safeSend_def socket_send_def split: option.splits)
  have a: "utype u = JStr (js ''node_start'') \<Longrightarrow> forward u =
      Some (JObj [(js ''type'', JStr (js ''state_update'')), (js ''node'', unode u),
                (js ''status'', JStr (js ''started'')),
                (js ''data'', if truthy (udata u) then udata u else JObj [])])"
    by (simp add: forward_def js_or_def)
  have b: "utype u = JStr (js ''expert_complete'') \<Longrightarrow> forward u =
      Some (JObj [(js ''type'', JStr (js ''expert_complete'')), (js ''data'', udata u)])"
    by (simp add: forward_def js_lits [symmetric])
  have c: "utype u = JStr (js ''node_complete'') \<Longrightarrow> forward u =
      Some (JObj ([(js ''type'', JStr (js ''state_update'')), (js ''node'', unode u),
                 (js ''status'', JStr (js ''completed''))] @
                (if unode u = JStr (js ''search'') \<and> \<not> nullish (ustate u) \<and>
                    truthy (property (ustate u) (js ''searchResults''))
                 then [(js ''searchResults'', property (ustate u) (js ''searchResults''))]
                 else [])))"
    by (simp add: forward_def js_lits [symmetric] opt_chain_def)
  have d: "utype u = JStr (js ''complete'') \<Longrightarrow> forward u =
      Some (JObj [(js ''type'', JStr (js ''complete'')),
                (js ''data'', JObj
                   [(js ''final_output'', opt_chain (ustate u) (js ''finalOutput'')),
                    (js ''experts'', opt_chain (ustate u) (js ''expertsOutput'')),
                    (js ''searchResults'', opt_chain (ustate u) (js ''searchResults''))])])"
    by (simp add: forward_def js_lits [symmetric])
  from a b c d run show ?thesis
    by (simp add: upd)
qed

text \<open>
  The search node completes with an empty result list: the list is truthy and is
  sent along.
\<close>

theorem update_wire_shapes_witness:
  "0 \<in> set (running one_run) \<and> readyState one_run = 1 \<and>
   utype search_done = JStr (js ''node_complete'') \<and>
   sent (on_update 0 search_done one_run) = sent one_run @
     [JObj [(js ''type'', JStr (js ''state_update'')), (js ''node'', JStr (js ''search'')),
            (js ''status'', JStr (js ''completed'')), (js ''searchResults'', JArr [])]]"
proof -
  have r: "0 \<in> set (running one_run)"
    by (simp add: one_run_eq)
  have o: "readyState one_run = 1"
    by (simp add: one_run_eq)
  have u: "utype search_done = JStr (js ''node_complete'')"
    "unode search_done = JStr (js ''search'')"
    "ustate search_done = JObj [(js ''searchResults'', JArr [])]"
    by (simp_all add: search_done_def)
  from update_wire_shapes [OF r o, of search_done] u(1)
  have "sent (on_update 0 search_done one_run) = sent one_run @
         [JObj ([(js ''type'', JStr (js ''state_update'')), (js ''node'', unode search_done),
                 (js ''status'', JStr (js ''completed''))] @
                (if unode search_done = JStr (js ''search'') \<and> \<not> nullish (ustate search_done) \<and>
                    truthy (property (ustate search_done) (js ''searchResults''))
                 then [(js ''searchResults'', property (ustate search_done) (js ''searchResults''))]
                 else []))]"
    by blast
  with r o u show ?thesis by simp
qed

text \<open>
  The three places that forward \<^verbatim>\<open>abort()\<close>, each as written: a cancel message aborts the
  engine that \<open>currentEngine\<close> names, the loop aborts its own engine when the socket is not
  open, the close handler aborts the engine that \<open>currentEngine\<close> names. None of them sends
  anything.
\<close>

lemma cancel_forwards_abort:
  assumes "length msgStr \<le> MAX_MESSAGE_SIZE" and "JSON_parse msgStr = Some data"
    and "property data (js ''type'') = JStr (js ''cancel'')" and "currentEngine s = Some e"
  shows "on_message JSON_parse ctor msgStr s = abort e s"
proof -
  from assms(3) have "\<not> nullish data"
    by (cases data) simp_all
  with assms show ?thesis
    by (simp add: on_message_def read_type_Inr js_eq_iff)
qed

lemma closed_socket_aborts:
  assumes "e \<in> set (running s)" and "readyState s \<noteq> 1"
  shows "aborted (on_update e u s) = aborted s @ [e] \<and> e \<notin> set (running (on_update e u s))
    \<and> sent (on_update e u s) = sent s"
  using assms by (simp add: on_update_def run_finally_def abort_def)

lemma close_handler_aborts:
  assumes "currentEngine s = Some e"
  shows "aborted (on_close s) = aborted s @ [e] \<and> currentEngine (on_close s) = None
    \<and> sent (on_close s) = sent s"
  using assms by (simp add: on_close_def abort_def)

text \<open>
  Claim C6 fails on the code. After the message text \<^verbatim>\<open>null\<close> has made the handler's
  \<^verbatim>\<open>catch\<close> reset \<open>currentEngine\<close> during a run, a \<^verbatim>\<open>cancel\<close> message finds no engine:
  \<^verbatim>\<open>abort()\<close> is called on nothing and the run stays in flight.
\<close>

theorem cancel_not_forwarded:
  "running (run_session parse_examples null_then_cancel) = [0] \<and>
   aborted (run_session parse_examples null_then_cancel) = [] \<and>
   currentEngine (run_session parse_examples null_then_cancel) = None"
  by (simp add: null_then_cancel_def handler_eval)

text \<open>
  Claim C7, as amended. When the \<open>apiKey\<close> of the effective config is falsy (absent
  included), \<open>createLLM\<close> throws its configuration error and leaves the static state
  as it was: nothing was constructed or cached. With a truthy \<open>apiKey\<close> it throws
  exactly when the template literal of the cache key throws, or when on a cache miss
  the provider constructor throws; no call that throws constructs or caches a
  provider. When the configuration error reaches the handler's \<^verbatim>\<open>catch\<close> on an open socket,
  exactly one payload \<^verbatim>\<open>{ type: "error", message }\<close> with the factory's message is sent;
  when it is thrown by the stream of a run, that run's loop is left as well, so the
  payload is the last of the run.
\<close>

theorem config_error_surfaces:
  "(\<not> truthy (apiKey (effective_config dflt c)) \<longrightarrow>
      createLLM fmt ctor dflt c st = (Inl (js_Error API_KEY_MISSING), st)) \<and>
   (truthy (apiKey (effective_config dflt c)) \<longrightarrow>
      (\<forall>err. fst (createLLM fmt ctor dflt c st) = Inl err \<longleftrightarrow>
         getCacheKey fmt (effective_config dflt c) = Inl err \<or>
         (\<exists>k. getCacheKey fmt (effective_config dflt c) = Inr k \<and>
              map_get (cache st) k = None \<and> ctor = Some err))) \<and>
   (\<forall>err. fst (createLLM fmt ctor dflt c st) = Inl err \<longrightarrow>
      constructed (snd (createLLM fmt ctor dflt c st)) = constructed st \<and>
      set (cache (snd (createLLM fmt ctor dflt c st))) \<subseteq> set (cache st)) \<and>
   (\<forall>s. readyState s = 1 \<longrightarrow>
      sent (handler_catch (js_Error API_KEY_MISSING) s) = sent s @
        [JObj [(js ''type'', JStr (js ''error'')), (js ''message'', JStr API_KEY_MISSING)]]) \<and>
   (\<forall>e s. e \<in> set (running s) \<and> readyState s = 1 \<longrightarrow>
      sent (on_throw e (js_Error API_KEY_MISSING) s) = sent s @
        [JObj [(js ''type'', JStr (js ''error'')), (js ''message'', JStr API_KEY_MISSING)]] \<and>
      e \<notin> set (running (on_throw e (js_Error API_KEY_MISSING) s)))"
proof -
  have a: "sent (handler_catch (js_Error API_KEY_MISSING) s) = sent s @
        [JObj [(js ''type'', JStr (js ''error'')), (js ''message'', JStr API_KEY_MISSING)]]"
    if "readyState s = 1" for s
    using that
    by (simp add: handler_catch_sent js_Error_simps js_or_message_str API_KEY_MISSING_nonempty
          error_event_def)
  have b: "sent (on_throw e (js_Error API_KEY_MISSING) s) = sent s @
        [JObj [(js ''type'', JStr (js ''error'')), (js ''message'', JStr API_KEY_MISSING)]] \<and>
      e \<notin> set (running (on_throw e (js_Error API_KEY_MISSING) s))"
    if "e \<in> set (running s) \<and> readyState s = 1" for e s
    using that
    by (simp add: on_throw_def handler_catch_def safeSend_def socket_send_def run_finally_def
          js_Error_simps js_or_message_str API_KEY_MISSING_nonempty error_event_def)
  from createLLM_no_key [of dflt c fmt ctor st] createLLM_throws_iff [of dflt c fmt ctor st]
    createLLM_throws_nothing_cached [of fmt ctor dflt c st] a b
  show ?thesis by blast
qed

text \<open>
  With no key configured the factory throws and keeps its state; thrown into the run
  of a first query, the error is sent and the run is over. With an object for a key
  the factory throws too, from the cache key.
\<close>

theorem config_error_surfaces_witness:
  "\<not> truthy (apiKey cfg_no_key) \<and>
   createLLM no_conv None cfg_no_key None factory_init =
     (Inl (js_Error API_KEY_MISSING), factory_init) \<and>
   truthy (apiKey cfg_object_key) \<and>
   fst (createLLM no_conv None cfg_no_key (Some cfg_object_key) factory_init) =
     Inl (js_Error (js ''Cannot convert object to primitive value'')) \<and>
   constructed (snd (createLLM no_conv None cfg_no_key (Some cfg_object_key) factory_init)) =
     constructed factory_init \<and>
   0 \<in> set (running one_run) \<and> readyState one_run = 1 \<and>
   sent (on_throw 0 (js_Error API_KEY_MISSING) one_run) = sent one_run @
     [JObj [(js ''type'', JStr (js ''error'')), (js ''message'', JStr API_KEY_MISSING)]] \<and>
   0 \<notin> set (running (on_throw 0 (js_Error API_KEY_MISSING) one_run))"
proof -
  have f: "\<not> truthy (apiKey (effective_config cfg_no_key None))"
    by (simp add: cfg_no_key_def effective_config_def)
  have t: "truthy (apiKey (effective_config cfg_no_key (Some cfg_object_key)))"
    by (simp add: cfg_object_key_def effective_config_def)
  have k: "getCacheKey no_conv (effective_config cfg_no_key (Some cfg_object_key)) =
      Inl (js_Error (js ''Cannot convert object to primitive value''))"
    by (simp add: getCacheKey_def then_str_def js_or_def cfg_object_key_def effective_config_def)
  have r: "0 \<in> set (running one_run) \<and> readyState one_run = 1"
    by (simp add: one_run_eq)
  from config_error_surfaces [of cfg_no_key None no_conv None factory_init] f r
  have 1: "createLLM no_conv None cfg_no_key None factory_init =
       (Inl (js_Error API_KEY_MISSING), factory_init) \<and>
     sent (on_throw 0 (js_Error API_KEY_MISSING) one_run) = sent one_run @
       [JObj [(js ''type'', JStr (js ''error'')), (js ''message'', JStr API_KEY_MISSING)]] \<and>
     0 \<notin> set (running (on_throw 0 (js_Error API_KEY_MISSING) one_run))"
    by blast
  from config_error_surfaces [of cfg_no_key "Some cfg_object_key" no_conv None factory_init] t k
  have 2: "fst (createLLM no_conv None cfg_no_key (Some cfg_object_key) factory_init) =
       Inl (js_Error (js ''Cannot convert object to primitive value'')) \<and>
     constructed (snd (createLLM no_conv None cfg_no_key (Some cfg_object_key) factory_init)) =
       constructed factory_init"
    by blast
  from 1 2 f t r show ?thesis
    by (simp add: effective_config_def)
qed

text \<open>
  Claim C7 as stated fails: an \<open>apiKey\<close> that is an object with a \<^verbatim>\<open>toString\<close> property,
  as \<^verbatim>\<open>{"toString":1}\<close>, is truthy and passes the check, and the template literal of the
  cache key then throws a TypeError.
\<close>

theorem object_key_throws_with_truthy_apiKey:
  "truthy (apiKey (effective_config cfg_no_key (Some cfg_object_key))) \<and>
   createLLM no_conv None cfg_no_key (Some cfg_object_key) factory_init =
     (Inl (JObj [(js ''message'', JStr (js ''Cannot convert object to primitive value''))]),
      factory_init)"
  by (simp add: createLLM_def getCacheKey_def then_str_def js_or_def cfg_object_key_def
        effective_config_def js_Error_def)




section \<open>Terminal events of the engine\<close>

lemma quiet_then:
  assumes "quiet m" and "\<And>a. quiet (f a)"
  shows "quiet (then_stage m f)"
proof -
  obtain evs r where m: "m = (evs, r)" by (cases m)
  show ?thesis
  proof (cases r)
    case (Inl h)
    with m assms(1) show ?thesis by (simp add: then_stage_def quiet_def)
  next
    case (Inr a)
    obtain evs' r' where fa: "f a = (evs', r')" by (cases "f a")
    from assms(2) [of a] fa have "\<forall>ev \<in> set evs'. \<not> is_Complete ev \<and> \<not> is_Error ev"
      by (simp add: quiet_def)
    with m Inr fa assms(1) show ?thesis
      by (auto simp: then_stage_def quiet_def)
  qed
qed

lemma quiet_checkpoint: "quiet (checkpoint ca s)"
  by (simp add: quiet_def checkpoint_def)

lemma quiet_fail: "quiet (fail m)"
  by (simp add: quiet_def fail_def)

lemma quiet_emit: "\<not> is_Complete ev \<Longrightarrow> \<not> is_Error ev \<Longrightarrow> quiet (emit ev s)"
  by (simp add: quiet_def emit_def)

lemma quiet_research: "quiet (research dg ca env s)"
  unfolding research_def
  by (intro quiet_then quiet_checkpoint quiet_emit) (auto simp: quiet_emit quiet_fail split: option.splits)

lemma quiet_experts_settle: "quiet (experts_settle ca rs s)"
proof (induction rs arbitrary: s)
  case Nil
  show ?case by (simp add: quiet_def)
next
  case (Cons r rs)
  show ?case
    unfolding experts_settle.simps
    by (intro quiet_then quiet_checkpoint quiet_emit Cons) simp_all
qed

lemma quiet_fanout: "quiet (fanout ca env s)"
  unfolding fanout_def
  by (intro quiet_then quiet_checkpoint quiet_emit quiet_experts_settle) (auto simp: quiet_emit quiet_fail)

lemma quiet_synthesis: "quiet (synthesis ca l env s)"
  unfolding synthesis_def
  by (intro quiet_then quiet_checkpoint quiet_emit) (auto simp: quiet_emit quiet_fail split: option.splits)

lemma quiet_run_round: "quiet (run_round dg ca l env s)"
  unfolding run_round_def
  by (intro quiet_then quiet_research quiet_fanout quiet_synthesis)

lemma quiet_rounds: "quiet (rounds dg ca env n i s)"
proof (induction n arbitrary: i s)
  case 0
  show ?case by (simp add: quiet_def)
next
  case (Suc n)
  show ?case
    by (auto intro!: quiet_then quiet_run_round Suc simp: quiet_def [of "([], _)"])
qed

lemma nc_then:
  assumes "never_cancelled m" and "\<And>a. never_cancelled (f a)"
  shows "never_cancelled (then_stage m f)"
proof -
  obtain evs r where m: "m = (evs, r)" by (cases m)
  show ?thesis
  proof (cases r)
    case (Inl h)
    with m assms(1) show ?thesis by (simp add: then_stage_def never_cancelled_def)
  next
    case (Inr a)
    obtain evs' r' where fa: "f a = (evs', r')" by (cases "f a")
    from assms(2) [of a] fa have "r' \<noteq> Inl Cancelled"
      by (simp add: never_cancelled_def)
    with m Inr fa show ?thesis
      by (simp add: then_stage_def never_cancelled_def)
  qed
qed

lemma nc_checkpoint: "never_cancelled (checkpoint None s)"
  by (simp add: never_cancelled_def checkpoint_def token_set_def)

lemma nc_fail: "never_cancelled (fail m)"
  by (simp add: never_cancelled_def fail_def)

lemma nc_emit: "never_cancelled (emit ev s)"
  by (simp add: never_cancelled_def emit_def)

lemma nc_research: "never_cancelled (research dg None env s)"
  unfolding research_def
  by (intro nc_then nc_checkpoint nc_emit) (auto simp: nc_emit nc_fail split: option.splits)

lemma nc_experts_settle: "never_cancelled (experts_settle None rs s)"
proof (induction rs arbitrary: s)
  case Nil
  show ?case by (simp add: never_cancelled_def)
next
  case (Cons r rs)
  show ?case
    unfolding experts_settle.simps
    by (intro nc_then nc_checkpoint nc_emit Cons)
qed

lemma nc_fanout: "never_cancelled (fanout None env s)"
  unfolding fanout_def
  by (intro nc_then nc_checkpoint nc_emit nc_experts_settle) (auto simp: nc_emit nc_fail)

lemma nc_synthesis: "never_cancelled (synthesis None l env s)"
  unfolding synthesis_def
  by (intro nc_then nc_checkpoint nc_emit) (auto simp: nc_emit nc_fail split: option.splits)

lemma nc_run_round: "never_cancelled (run_round dg None l env s)"
  unfolding run_round_def
  by (intro nc_then nc_research nc_fanout nc_synthesis)

lemma nc_rounds: "never_cancelled (rounds dg None env n i s)"
proof (induction n arbitrary: i s)
  case 0
  show ?case by (simp add: never_cancelled_def)
next
  case (Suc n)
  show ?case
    by (auto intro!: nc_then nc_run_round Suc simp: never_cancelled_def [of "([], _)"])
qed

text \<open>
  Claim C1. In the engine as the spec describes it, every run ends in exactly one of
  three ways. The event sequence holds one Complete event exactly when the run ends
  COMPLETED and none otherwise, one Error event exactly when it ends FAILED and none
  otherwise (so the two exclude each other and the cancelled end, and each occurs at
  most once); a run that does not end by cancellation has its Complete or Error event
  as the last event; and a run on which \<^verbatim>\<open>abort()\<close> is never called does not end ABORTED,
  so it emits exactly one of the two.
\<close>

theorem one_terminal_event:
  "length (filter is_Complete (fst (stream dg ca env q n))) =
     (if snd (stream dg ca env q n) = COMPLETED then 1 else 0) \<and>
   length (filter is_Error (fst (stream dg ca env q n))) =
     (if snd (stream dg ca env q n) = FAILED then 1 else 0) \<and>
   (snd (stream dg ca env q n) \<noteq> ABORTED \<longrightarrow>
      fst (stream dg ca env q n) \<noteq> [] \<and>
      (is_Complete (last (fst (stream dg ca env q n))) \<or>
       is_Error (last (fst (stream dg ca env q n))))) \<and>
   (ca = None \<longrightarrow> snd (stream dg ca env q n) \<noteq> ABORTED)"
proof -
  let ?m = "then_stage (rounds dg ca env n 0 engine_init) (checkpoint ca)"
  have q: "quiet ?m"
    by (intro quiet_then quiet_rounds quiet_checkpoint)
  then have f: "filter is_Complete (fst ?m) = []" "filter is_Error (fst ?m) = []"
    by (auto simp: quiet_def filter_empty_conv)
  have nc: "ca = None \<Longrightarrow> snd ?m \<noteq> Inl Cancelled"
    using nc_then [OF nc_rounds, of "checkpoint None"] nc_checkpoint
    by (auto simp: never_cancelled_def)
  obtain evs r where m: "?m = (evs, r)" by (cases ?m)
  with f nc show ?thesis
    by (auto simp: stream_def split: sum.splits halt.splits)
qed

text \<open>
  One round with two experts, one of them failing, and three search results: the run
  completes with one Complete event.
\<close>

theorem one_terminal_event_witness:
  "snd (stream True None env_example (js ''What is 2+2?'') 1) \<noteq> ABORTED \<and>
   length (filter is_Complete (fst (stream True None env_example (js ''What is 2+2?'') 1))) = 1 \<and>
   length (filter is_Error (fst (stream True None env_example (js ''What is 2+2?'') 1))) = 0 \<and>
   fst (stream True None env_example (js ''What is 2+2?'') 1) \<noteq> []"
proof -
  have c: "snd (stream True None env_example (js ''What is 2+2?'') 1) = COMPLETED"
    by code_simp
  from one_terminal_event [of True None env_example "js ''What is 2+2?''" 1] c
  show ?thesis by simp
qed

end
